theory Spec2Isabelle
  imports Complex_Main
begin

section \<open>Data model (types.ts)\<close>

text \<open>
  The structural-analysis engine works on JavaScript numbers.  They are modelled as
  \<^typ>\<open>real\<close>: every statement below is about exact arithmetic.  A division whose
  divisor is zero yields Infinity or NaN in the source and \<open>0\<close> in HOL, so the
  theorems carry the hypotheses that keep the divisors they meet away from zero.
  Optional fields (\<open>x?\<close>, \<open>x1?\<close>, \<open>x2?\<close>, \<open>peak?\<close>) are \<open>option\<close> values, \<open>None\<close>
  standing for \<open>undefined\<close>.
\<close>

datatype BeamType = cantilever | simplySupported | overhanging

datatype SectionType = rectangular | circular | ibeam

datatype LoadType = load_P | load_U | load_T | load_M

datatype PeakSide = peak_left | peak_right

datatype SimMode = mode_beam | mode_bearing

record LoadDefinition =
  l_id :: string
  l_type :: LoadType
  l_val :: real
  l_x :: "real option"
  l_x1 :: "real option"
  l_x2 :: "real option"
  l_peak :: "PeakSide option"

record BearingParams =
  outerRadius :: real
  innerRadius :: real
  ballCount :: real
  radialLoad :: real
  rotationSpeed :: real
  contactAngle :: real

record SimulationParams =
  beam_length :: real
  height :: real
  force :: real
  youngsModulus :: real
  yieldStrength :: real
  meshDensityX :: real
  meshDensityY :: real
  deformationScale :: real
  beamType :: BeamType
  loadPosition :: real
  supportA :: real
  supportB :: real
  customLoads :: "LoadDefinition list"
  sectionType :: SectionType
  sectionWidth :: real
  flangeWidth :: real
  flangeThickness :: real
  webThickness :: real
  mode :: SimMode
  bearing :: BearingParams

text \<open>
  A counting loop \<open>for (let i = 0; i < m; i++)\<close> over a JavaScript number \<open>m\<close> visits
  the naturals below \<open>m\<close>, that is \<open>0, \<dots>, \<lceil>m\<rceil> - 1\<close>.
\<close>

definition loop_indices :: "real \<Rightarrow> nat list" where
  "loop_indices m = [0..<nat \<lceil>m\<rceil>]"

section \<open>Section properties (calculateSectionProperties)\<close>

record SectionProperties =
  sp_I :: real
  sp_area :: real

definition calculateSectionProperties :: "SimulationParams \<Rightarrow> SectionProperties" where
  "calculateSectionProperties params =
     (let H = height params;
          B_rect = sectionWidth params;
          B_flange = flangeWidth params;
          tf = flangeThickness params;
          tw = webThickness params
      in case sectionType params of
           rectangular \<Rightarrow> \<lparr> sp_I = (B_rect * H ^ 3) / 12, sp_area = B_rect * H \<rparr>
         | circular \<Rightarrow> \<lparr> sp_I = (pi * H ^ 4) / 64, sp_area = pi * (H / 2) ^ 2 \<rparr>
         | ibeam \<Rightarrow>
             (let innerH = H - 2 * tf;
                  innerB = B_flange - tw
              in if innerH > 0 \<and> innerB > 0
                 then \<lparr> sp_I = ((B_flange * H ^ 3) - (innerB * innerH ^ 3)) / 12,
                        sp_area = (2 * B_flange * tf) + (tw * innerH) \<rparr>
                 else \<lparr> sp_I = (B_flange * H ^ 3) / 12, sp_area = 0 \<rparr>))"

text \<open>The default configuration of the application (App.tsx, \<open>defaultParams\<close>).\<close>

definition defaultBearing :: BearingParams where
  "defaultBearing = \<lparr> outerRadius = 100, innerRadius = 60, ballCount = 12,
     radialLoad = 5000, rotationSpeed = 0, contactAngle = 0 \<rparr>"

definition defaultParams :: SimulationParams where
  "defaultParams = \<lparr> beam_length = 8, height = 1 / 2, force = - 50000,
     youngsModulus = 200000000000, yieldStrength = 250000000,
     meshDensityX = 40, meshDensityY = 8, deformationScale = 50,
     beamType = simplySupported, loadPosition = 4,
     supportA = 1, supportB = 7, customLoads = [],
     sectionType = rectangular, sectionWidth = 1 / 5, flangeWidth = 3 / 10,
     flangeThickness = 1 / 50, webThickness = 3 / 200,
     mode = mode_beam, bearing = defaultBearing \<rparr>"

section \<open>Beam field solver (calculateBeamPhysics, calculateBeamStats)\<close>

record NodePoint =
  n_id :: "nat \<times> nat"
  n_x :: real
  n_y :: real
  n_dx :: real
  n_dy :: real
  n_stress :: real

record MeshElement =
  e_id :: "nat \<times> nat"
  e_nodes :: "NodePoint list"
  e_avgStress :: real

text \<open>
  The three local variables \<open>v\<close>, \<open>theta\<close> and \<open>M\<close> of \<open>getNode\<close>, as the branch on
  the beam type leaves them.  An overhanging beam takes neither branch and keeps
  the initial zeros.
\<close>

record BeamField =
  f_v :: real
  f_theta :: real
  f_M :: real

definition safeLoadPosition :: "SimulationParams \<Rightarrow> real" where
  "safeLoadPosition params = max 0 (min (loadPosition params) (beam_length params))"

definition beamField :: "SimulationParams \<Rightarrow> real \<Rightarrow> BeamField" where
  "beamField params xOriginal =
     (let L = beam_length params;
          P = force params;
          E = youngsModulus params;
          I = sp_I (calculateSectionProperties params);
          safeA = safeLoadPosition params;
          b = L - safeA
      in case beamType params of
           cantilever \<Rightarrow>
             if xOriginal \<le> safeA
             then \<lparr> f_v = (P * xOriginal ^ 2 * (3 * safeA - xOriginal)) / (6 * E * I),
                    f_theta = (P * xOriginal * (2 * safeA - xOriginal)) / (2 * E * I),
                    f_M = P * (xOriginal - safeA) \<rparr>
             else (let v_a = (P * safeA ^ 3) / (3 * E * I);
                       theta_a = (P * safeA ^ 2) / (2 * E * I)
                   in \<lparr> f_v = v_a + theta_a * (xOriginal - safeA),
                        f_theta = theta_a,
                        f_M = 0 \<rparr>)
         | simplySupported \<Rightarrow>
             if xOriginal \<le> safeA
             then \<lparr> f_v = (P * b * xOriginal) / (6 * L * E * I)
                            * (L ^ 2 - b ^ 2 - xOriginal ^ 2),
                    f_theta = (P * b) / (6 * L * E * I)
                            * (L ^ 2 - b ^ 2 - 3 * xOriginal ^ 2),
                    f_M = (P * b * xOriginal) / L \<rparr>
             else (let xFromRight = L - xOriginal;
                       term = L ^ 2 - safeA ^ 2 - 3 * xFromRight ^ 2;
                       thetaFromRight = (P * safeA) / (6 * L * E * I) * term
                   in \<lparr> f_v = (P * safeA * xFromRight) / (6 * L * E * I)
                                * (L ^ 2 - safeA ^ 2 - xFromRight ^ 2),
                        f_theta = - thetaFromRight,
                        f_M = (P * safeA * (L - xOriginal)) / L \<rparr>)
         | overhanging \<Rightarrow> \<lparr> f_v = 0, f_theta = 0, f_M = 0 \<rparr>)"

text \<open>\<open>deformationScale || 1\<close>: a zero scale is replaced by one.\<close>

definition effectiveScale :: "SimulationParams \<Rightarrow> real" where
  "effectiveScale params =
     (if deformationScale params = 0 then 1 else deformationScale params)"

definition getNode :: "SimulationParams \<Rightarrow> nat \<Rightarrow> nat \<Rightarrow> NodePoint" where
  "getNode params i j =
     (let L = beam_length params;
          h = height params;
          I = sp_I (calculateSectionProperties params);
          dxStep = L / meshDensityX params;
          dyStep = h / meshDensityY params;
          scale = effectiveScale params;
          xOriginal = real i * dxStep;
          yOriginal = (real j * dyStep) - (h / 2);
          fld = beamField params xOriginal;
          u = - yOriginal * f_theta fld;
          stress = - (f_M fld * yOriginal) / I
      in \<lparr> n_id = (i, j),
           n_x = xOriginal,
           n_y = yOriginal,
           n_dx = xOriginal + (u * scale),
           n_dy = yOriginal + (f_v fld * scale),
           n_stress = stress \<rparr>)"

definition meshElement :: "SimulationParams \<Rightarrow> nat \<Rightarrow> nat \<Rightarrow> MeshElement" where
  "meshElement params i j =
     (let p1 = getNode params i j;
          p2 = getNode params (i + 1) j;
          p3 = getNode params (i + 1) (j + 1);
          p4 = getNode params i (j + 1);
          avgStress = (n_stress p1 + n_stress p2 + n_stress p3 + n_stress p4) / 4
      in \<lparr> e_id = (i, j), e_nodes = [p1, p2, p3, p4], e_avgStress = avgStress \<rparr>)"

definition calculateBeamPhysics :: "SimulationParams \<Rightarrow> MeshElement list" where
  "calculateBeamPhysics params =
     concat (map (\<lambda>i. map (\<lambda>j. meshElement params i j)
                          (loop_indices (meshDensityY params)))
                 (loop_indices (meshDensityX params)))"

record BeamStats =
  maxStress :: real
  maxDeflection :: real

definition statsNode :: "NodePoint \<Rightarrow> BeamStats \<Rightarrow> BeamStats" where
  "statsNode n s =
     (let stressAbs = \<bar>n_stress n\<bar>;
          s1 = (if stressAbs > maxStress s then s\<lparr>maxStress := stressAbs\<rparr> else s);
          deflection = \<bar>n_dy n - n_y n\<bar>
      in if deflection > maxDeflection s1 then s1\<lparr>maxDeflection := deflection\<rparr> else s1)"

definition calculateBeamStats :: "MeshElement list \<Rightarrow> BeamStats" where
  "calculateBeamStats elements =
     fold (\<lambda>el s. fold statsNode (e_nodes el) s) elements
          \<lparr> maxStress = 0, maxDeflection = 0 \<rparr>"

section \<open>Reactions and numeric diagrams (calculateAnalyticalDiagrams)\<close>

record Reactions =
  r_Ra :: real
  r_Rb :: real
  r_Ma :: real

record DiagramData =
  d_xs :: "real list"
  d_Vs :: "real list"
  d_Ms :: "real list"
  d_reactions :: Reactions

definition checkStep :: "real \<Rightarrow> real \<Rightarrow> real \<Rightarrow> bool" where
  "checkStep x target dx \<longleftrightarrow> x \<ge> target \<and> x < target + dx"

text \<open>The load list in use: the custom loads, or the base point load when there are none.\<close>

definition defaultLoad :: "SimulationParams \<Rightarrow> LoadDefinition" where
  "defaultLoad params =
     \<lparr> l_id = ''default'', l_type = load_P, l_val = \<bar>force params\<bar>,
       l_x = Some (loadPosition params), l_x1 = None, l_x2 = None, l_peak = None \<rparr>"

definition resolveLoads :: "SimulationParams \<Rightarrow> LoadDefinition list" where
  "resolveLoads params =
     (if customLoads params \<noteq> [] then customLoads params else [defaultLoad params])"

text \<open>Support positions \<open>(supA, supB)\<close> as calculateAnalyticalDiagrams sets them.\<close>

definition supportPositions :: "SimulationParams \<Rightarrow> real \<times> real" where
  "supportPositions params =
     (case beamType params of
        cantilever \<Rightarrow> (0, 0)
      | overhanging \<Rightarrow> (supportA params, supportB params)
      | simplySupported \<Rightarrow> (0, beam_length params))"

text \<open>One round of the first \<open>loads.forEach\<close>: the running \<open>(sumFy, sumMa)\<close>.\<close>

definition accumulateLoad :: "real \<Rightarrow> LoadDefinition \<Rightarrow> real \<times> real \<Rightarrow> real \<times> real" where
  "accumulateLoad supA l acc =
     (case acc of (sumFy, sumMa) \<Rightarrow>
        if l_type l = load_P \<and> l_x l \<noteq> None
        then (sumFy - l_val l, sumMa - l_val l * (the (l_x l) - supA))
        else if l_type l = load_M
        then (sumFy, sumMa + l_val l)
        else if l_type l = load_U \<and> l_x1 l \<noteq> None \<and> l_x2 l \<noteq> None
        then (let f = l_val l * (the (l_x2 l) - the (l_x1 l))
              in (sumFy - f, sumMa - f * ((the (l_x1 l) + the (l_x2 l)) / 2 - supA)))
        else if l_type l = load_T \<and> l_x1 l \<noteq> None \<and> l_x2 l \<noteq> None
        then (let f = (1 / 2) * l_val l * (the (l_x2 l) - the (l_x1 l));
                  d = (if l_peak l = Some peak_right
                       then (2 / 3) * (the (l_x2 l) - the (l_x1 l))
                       else (1 / 3) * (the (l_x2 l) - the (l_x1 l)))
              in (sumFy - f, sumMa - f * (the (l_x1 l) + d - supA)))
        else acc)"

definition loadSums :: "SimulationParams \<Rightarrow> real \<times> real" where
  "loadSums params =
     fold (accumulateLoad (fst (supportPositions params))) (resolveLoads params) (0, 0)"

text \<open>The span the solver divides by: a span below \<open>1e-6\<close> in size is replaced by 1.\<close>

definition effectiveSpan :: "SimulationParams \<Rightarrow> real" where
  "effectiveSpan params =
     (let span = snd (supportPositions params) - fst (supportPositions params)
      in if \<bar>span\<bar> < 1 / 1000000 then 1 else span)"

definition solveReactions :: "SimulationParams \<Rightarrow> Reactions" where
  "solveReactions params =
     (case loadSums params of (sumFy, sumMa) \<Rightarrow>
        if beamType params = cantilever
        then \<lparr> r_Ra = - sumFy, r_Rb = 0, r_Ma = - sumMa \<rparr>
        else (let Rb = - sumMa / effectiveSpan params
              in \<lparr> r_Ra = - sumFy - Rb, r_Rb = Rb, r_Ma = 0 \<rparr>))"

text \<open>
  The body of the station loop: from the running \<open>(V, M)\<close> before station \<open>i\<close> to the
  pair pushed onto \<open>Vs\<close> and \<open>Ms\<close>.
\<close>

definition distributedIntensity :: "real \<Rightarrow> LoadDefinition \<Rightarrow> real \<Rightarrow> real" where
  "distributedIntensity x l q =
     (if l_x1 l \<noteq> None \<and> l_x2 l \<noteq> None \<and> x \<ge> the (l_x1 l) \<and> x \<le> the (l_x2 l)
      then (let q1 = (if l_type l = load_U then q + l_val l else q)
            in if l_type l = load_T
               then (let r = (x - the (l_x1 l)) / (the (l_x2 l) - the (l_x1 l))
                     in q1 + (if l_peak l = Some peak_right then r else 1 - r) * l_val l)
               else q1)
      else q)"

definition sweepStation ::
  "SimulationParams \<Rightarrow> Reactions \<Rightarrow> LoadDefinition list \<Rightarrow> real
     \<Rightarrow> real \<times> real \<Rightarrow> nat \<Rightarrow> real \<times> real" where
  "sweepStation params reactions loads dx VM i =
     (case VM of (V0, M0) \<Rightarrow>
        let x = real i * dx;
            supA = fst (supportPositions params);
            supB = snd (supportPositions params);
            V1 = (if beamType params \<noteq> cantilever
                  then (let Va = (if checkStep x supA dx then V0 + r_Ra reactions else V0)
                        in if checkStep x supB dx then Va + r_Rb reactions else Va)
                  else if checkStep x 0 dx then V0 + r_Ra reactions else V0);
            V2 = fold (\<lambda>l V. if l_type l = load_P \<and> l_x l \<noteq> None
                                  \<and> checkStep x (the (l_x l)) dx
                               then V - l_val l else V) loads V1;
            q = fold (distributedIntensity x) loads 0;
            V3 = V2 - q * dx;
            M1 = M0 + V3 * dx;
            M2 = (if beamType params = cantilever \<and> checkStep x 0 dx
                  then M1 + (- r_Ma reactions) else M1);
            M3 = fold (\<lambda>l M. if l_type l = load_M \<and> l_x l \<noteq> None
                                  \<and> checkStep x (the (l_x l)) dx
                               then M - l_val l else M) loads M2
        in (V3, M3))"

fun sweepLoop ::
  "(real \<times> real \<Rightarrow> nat \<Rightarrow> real \<times> real) \<Rightarrow> nat list \<Rightarrow> real \<times> real
     \<Rightarrow> (real \<times> real) list" where
  "sweepLoop step [] VM = []"
| "sweepLoop step (i # rest) VM = (let VM' = step VM i in VM' # sweepLoop step rest VM')"

text \<open>The sweep over the stations \<open>0, \<dots>, n\<close> with step \<open>dx = L / n\<close>.\<close>

definition sweep :: "SimulationParams \<Rightarrow> Reactions \<Rightarrow> nat \<Rightarrow> (real \<times> real) list" where
  "sweep params reactions n =
     sweepLoop (sweepStation params reactions (resolveLoads params)
                  (beam_length params / real n))
               [0..<n + 1] (0, 0)"

definition sampleCount :: nat where
  "sampleCount = 400"

definition calculateAnalyticalDiagrams :: "SimulationParams \<Rightarrow> DiagramData" where
  "calculateAnalyticalDiagrams params =
     (let reactions = solveReactions params;
          n = sampleCount;
          dx = beam_length params / real n;
          states = sweep params reactions n
      in \<lparr> d_xs = map (\<lambda>i. real i * dx) [0..<n + 1],
           d_Vs = map fst states,
           d_Ms = map snd states,
           d_reactions = reactions \<rparr>)"

section \<open>Piecewise polynomials (getPolynomial, generateDetailedSteps)\<close>

record PolyCoeffs =
  c_m3 :: real
  c_m2 :: real
  c_m1 :: real
  c_m0 :: real
  c_v2 :: real
  c_v1 :: real
  c_v0 :: real

definition zeroPoly :: PolyCoeffs where
  "zeroPoly = \<lparr> c_m3 = 0, c_m2 = 0, c_m1 = 0, c_m0 = 0, c_v2 = 0, c_v1 = 0, c_v0 = 0 \<rparr>"

text \<open>The contribution of a force \<open>F\<close> acting at \<open>pos\<close>, left of the segment.\<close>

definition addForce :: "real \<Rightarrow> real \<Rightarrow> PolyCoeffs \<Rightarrow> PolyCoeffs" where
  "addForce F pos c = c\<lparr> c_v0 := c_v0 c + F, c_m1 := c_m1 c + F, c_m0 := c_m0 c - F * pos \<rparr>"

text \<open>One round of the \<open>loads.forEach\<close> of getPolynomial.\<close>

definition polyLoad :: "real \<Rightarrow> real \<Rightarrow> LoadDefinition \<Rightarrow> PolyCoeffs \<Rightarrow> PolyCoeffs" where
  "polyLoad xA xB l c =
     (if l_type l = load_P \<and> l_x l \<noteq> None \<and> the (l_x l) \<le> xA
      then c\<lparr> c_v0 := c_v0 c - l_val l, c_m1 := c_m1 c - l_val l,
             c_m0 := c_m0 c + l_val l * the (l_x l) \<rparr>
      else if l_type l = load_M \<and> l_x l \<noteq> None \<and> the (l_x l) \<le> xA
      then c\<lparr> c_m0 := c_m0 c - l_val l \<rparr>
      else if l_type l = load_U \<and> l_x1 l \<noteq> None \<and> l_x2 l \<noteq> None
      then (if the (l_x2 l) \<le> xA
            then (let F = l_val l * (the (l_x2 l) - the (l_x1 l));
                      cent = (the (l_x1 l) + the (l_x2 l)) / 2
                  in c\<lparr> c_v0 := c_v0 c - F, c_m1 := c_m1 c - F,
                         c_m0 := c_m0 c + F * cent \<rparr>)
            else if the (l_x1 l) \<le> xA \<and> the (l_x2 l) \<ge> xB
            then c\<lparr> c_v1 := c_v1 c - l_val l,
                   c_v0 := c_v0 c + l_val l * the (l_x1 l),
                   c_m2 := c_m2 c - (1 / 2) * l_val l,
                   c_m1 := c_m1 c + l_val l * the (l_x1 l),
                   c_m0 := c_m0 c - (1 / 2) * l_val l * the (l_x1 l) * the (l_x1 l) \<rparr>
            else c)
      else if l_type l = load_T \<and> l_x1 l \<noteq> None \<and> l_x2 l \<noteq> None
      then (if the (l_x2 l) \<le> xA
            then (let F = (1 / 2) * l_val l * (the (l_x2 l) - the (l_x1 l));
                      dist = (if l_peak l = Some peak_right
                              then (the (l_x2 l) - the (l_x1 l)) / 3
                              else 2 * (the (l_x2 l) - the (l_x1 l)) / 3);
                      cent = the (l_x2 l) - dist
                  in c\<lparr> c_v0 := c_v0 c - F, c_m1 := c_m1 c - F,
                         c_m0 := c_m0 c + F * cent \<rparr>)
            else if the (l_x1 l) \<le> xA \<and> the (l_x2 l) \<ge> xB
            then (let w = l_val l;
                      L = the (l_x2 l) - the (l_x1 l);
                      x1 = the (l_x1 l);
                      k = w / (6 * L);
                      kv = w / (2 * L)
                  in if l_peak l = Some peak_right
                     then c\<lparr> c_m3 := c_m3 c - k,
                            c_m2 := c_m2 c + 3 * k * x1,
                            c_m1 := c_m1 c - 3 * k * x1 * x1,
                            c_m0 := c_m0 c + k * x1 * x1 * x1,
                            c_v2 := c_v2 c - kv,
                            c_v1 := c_v1 c + 2 * kv * x1,
                            c_v0 := c_v0 c - kv * x1 * x1 \<rparr>
                     else c\<lparr> c_m2 := c_m2 c - (1 / 2) * w - 3 * k * x1,
                            c_m1 := c_m1 c + w * x1 + 3 * k * x1 * x1,
                            c_m0 := c_m0 c - (1 / 2) * w * x1 * x1 - k * x1 * x1 * x1,
                            c_v1 := c_v1 c - w - 2 * kv * x1,
                            c_v0 := c_v0 c + w * x1 + kv * x1 * x1,
                            c_m3 := c_m3 c + k,
                            c_v2 := c_v2 c + kv \<rparr>)
            else c)
      else c)"

definition polyReactions :: "real \<Rightarrow> SimulationParams \<Rightarrow> Reactions \<Rightarrow> PolyCoeffs" where
  "polyReactions xA params reactions =
     (let supA = (if beamType params = overhanging then supportA params else 0);
          supB = (if beamType params = overhanging then supportB params
                  else beam_length params);
          c = zeroPoly
      in if beamType params = cantilever
         then c\<lparr> c_v0 := c_v0 c + r_Ra reactions, c_m1 := c_m1 c + r_Ra reactions,
                c_m0 := c_m0 c - r_Ma reactions \<rparr>
         else (let ca = (if supA \<le> xA then addForce (r_Ra reactions) supA c else c)
               in if supB \<le> xA then addForce (r_Rb reactions) supB ca else ca))"

definition getPolynomial ::
  "real \<Rightarrow> real \<Rightarrow> SimulationParams \<Rightarrow> Reactions \<Rightarrow> PolyCoeffs" where
  "getPolynomial xA xB params reactions =
     fold (polyLoad xA xB) (resolveLoads params) (polyReactions xA params reactions)"

text \<open>
  The polynomials the coefficients stand for, with the powers formatPoly prints:
  \<open>V(x) = v2\<cdot>x\<^sup>2 + v1\<cdot>x + v0\<close> and \<open>M(x) = m3\<cdot>x\<^sup>3 + m2\<cdot>x\<^sup>2 + m1\<cdot>x + m0\<close>.
\<close>

definition evalV :: "PolyCoeffs \<Rightarrow> real \<Rightarrow> real" where
  "evalV c x = c_v2 c * x ^ 2 + c_v1 c * x + c_v0 c"

definition evalM :: "PolyCoeffs \<Rightarrow> real \<Rightarrow> real" where
  "evalM c x = c_m3 c * x ^ 3 + c_m2 c * x ^ 2 + c_m1 c * x + c_m0 c"

text \<open>
  The break points \<open>pts\<close> of generateDetailedSteps: the beam ends, the supports of an
  overhanging beam and the points of every load, without duplicates, ascending.
\<close>

definition loadPoints :: "LoadDefinition \<Rightarrow> real list" where
  "loadPoints l =
     (if l_type l = load_P \<or> l_type l = load_M
      then (if l_x l \<noteq> None then [the (l_x l)] else [])
      else (if l_x1 l \<noteq> None \<and> l_x2 l \<noteq> None then [the (l_x1 l), the (l_x2 l)] else []))"

definition collectedPoints :: "SimulationParams \<Rightarrow> real list" where
  "collectedPoints params =
     fold (\<lambda>l pts. pts @ loadPoints l) (resolveLoads params)
       ([0, beam_length params]
        @ (if beamType params = overhanging then [supportA params, supportB params] else []))"

definition breakPoints :: "SimulationParams \<Rightarrow> real list" where
  "breakPoints params = sort (remdups (collectedPoints params))"

text \<open>
  A step result: the interval and the coefficients from which the two display
  strings \<open>eq\<close> and \<open>int\<close> are printed.
\<close>

record StepResult =
  s_xA :: real
  s_xB :: real
  s_poly :: PolyCoeffs

definition stepsFrom ::
  "SimulationParams \<Rightarrow> Reactions \<Rightarrow> real list \<Rightarrow> StepResult list" where
  "stepsFrom params reactions pts =
     concat (map (\<lambda>i. let xA = pts ! i; xB = pts ! (i + 1)
                       in if \<bar>xA - xB\<bar> < 1 / 100 then []
                          else [\<lparr> s_xA = xA, s_xB = xB,
                                  s_poly = getPolynomial xA xB params reactions \<rparr>])
                 [0..<length pts - 1])"

definition generateDetailedSteps :: "SimulationParams \<Rightarrow> Reactions \<Rightarrow> StepResult list" where
  "generateDetailedSteps params reactions = stepsFrom params reactions (breakPoints params)"

section \<open>Bearing load distribution (calculateBearingPhysics)\<close>

record BearingElement =
  el_angle :: real
  el_load :: real
  el_maxStress :: real
  el_deformation :: real
  el_x :: real
  el_y :: real
  el_radius :: real

definition loadVectorAngle :: real where
  "loadVectorAngle = 3 * pi / 2"

text \<open>The wrapped distance \<open>angleDiff\<close> of a ball at \<open>theta\<close> from the load vector.\<close>

definition angleDiff :: "real \<Rightarrow> real" where
  "angleDiff theta =
     (let d = \<bar>theta - loadVectorAngle\<bar> in if d > pi then 2 * pi - d else d)"

text \<open>
  \<open>Math.pow\<close> with a real exponent is only taken of a positive base here (the
  cosine of an angle below \<open>\<pi>/2\<close>, a positive ball load), where it is \<open>powr\<close>.
\<close>

definition bearingElement :: "BearingParams \<Rightarrow> nat \<Rightarrow> BearingElement" where
  "bearingElement params i =
     (let pitchRadius = (outerRadius params + innerRadius params) / 2;
          ballDiameter = outerRadius params - innerRadius params;
          ballRadius = ballDiameter / 2;
          stribeckFactor = 5;
          maxBallLoad = (radialLoad params * stribeckFactor) / max 1 (ballCount params);
          theta = (2 * pi * real i) / ballCount params;
          ballLoad = (if angleDiff theta < pi / 2
                      then maxBallLoad * (cos (angleDiff theta) powr (3 / 2)) else 0);
          maxStress = (if ballLoad > 0 then 50 * sqrt (ballLoad / ballDiameter) else 0);
          deformation = (if ballLoad > 0 then (1 / 1000) * (ballLoad powr (2 / 3)) else 0)
      in \<lparr> el_angle = theta, el_load = ballLoad, el_maxStress = maxStress,
           el_deformation = deformation,
           el_x = pitchRadius * cos theta, el_y = pitchRadius * sin theta,
           el_radius = ballRadius \<rparr>)"

definition calculateBearingPhysics :: "BearingParams \<Rightarrow> BearingElement list" where
  "calculateBearingPhysics params =
     map (bearingElement params) (loop_indices (ballCount params))"

section \<open>Notions of the specification\<close>

text \<open>
  The angular distance \<open>\<psi>\<close> of the specification between two directions,
  wrapped to \<open>[0, \<pi>]\<close>: the angle in that range with the cosine of the difference.
\<close>

definition angularDistance :: "real \<Rightarrow> real \<Rightarrow> real" where
  "angularDistance theta phi = arccos (cos (theta - phi))"

text \<open>
  The load primitives as the specification describes them, forces upward positive and
  moments counter-clockwise positive: a point load is a downward force at \<open>x\<close>; a
  uniform load is the force \<open>magnitude \<cdot> (x2 - x1)\<close> at the centroid \<open>(x1 + x2) / 2\<close>; a
  triangular load is the force \<open>\<onehalf> \<cdot> peak \<cdot> (x2 - x1)\<close> at the centroid one third of
  the span from the peak end; an applied moment is a pure couple.  A load whose
  position fields are missing is no load.
\<close>

definition triangleCentroid :: "PeakSide option \<Rightarrow> real \<Rightarrow> real \<Rightarrow> real" where
  "triangleCentroid pk x1 x2 =
     (if pk = Some peak_right then x2 - (x2 - x1) / 3 else x1 + (x2 - x1) / 3)"

definition loadForce :: "LoadDefinition \<Rightarrow> real" where
  "loadForce l =
     (case l_type l of
        load_P \<Rightarrow> (case l_x l of None \<Rightarrow> 0 | Some x \<Rightarrow> - l_val l)
      | load_M \<Rightarrow> 0
      | load_U \<Rightarrow> (case l_x1 l of None \<Rightarrow> 0 | Some x1 \<Rightarrow>
                    (case l_x2 l of None \<Rightarrow> 0 | Some x2 \<Rightarrow> - (l_val l * (x2 - x1))))
      | load_T \<Rightarrow> (case l_x1 l of None \<Rightarrow> 0 | Some x1 \<Rightarrow>
                    (case l_x2 l of None \<Rightarrow> 0 | Some x2 \<Rightarrow> - (l_val l * (x2 - x1) / 2))))"

definition loadMomentAbout :: "real \<Rightarrow> LoadDefinition \<Rightarrow> real" where
  "loadMomentAbout pivot l =
     (case l_type l of
        load_P \<Rightarrow> (case l_x l of None \<Rightarrow> 0 | Some x \<Rightarrow> - l_val l * (x - pivot))
      | load_M \<Rightarrow> l_val l
      | load_U \<Rightarrow> (case l_x1 l of None \<Rightarrow> 0 | Some x1 \<Rightarrow>
                    (case l_x2 l of None \<Rightarrow> 0 | Some x2 \<Rightarrow>
                       - (l_val l * (x2 - x1)) * ((x1 + x2) / 2 - pivot)))
      | load_T \<Rightarrow> (case l_x1 l of None \<Rightarrow> 0 | Some x1 \<Rightarrow>
                    (case l_x2 l of None \<Rightarrow> 0 | Some x2 \<Rightarrow>
                       - (l_val l * (x2 - x1) / 2)
                         * (triangleCentroid (l_peak l) x1 x2 - pivot))))"

text \<open>
  The resultants of global equilibrium: all vertical forces, and all moments about a
  pivot, of the reactions (\<open>Ra\<close> at support A, \<open>Rb\<close> at support B, the wall moment
  \<open>Ma\<close>) together with the loads.
\<close>

definition totalVerticalForce :: "SimulationParams \<Rightarrow> Reactions \<Rightarrow> real" where
  "totalVerticalForce params R =
     r_Ra R + r_Rb R + sum_list (map loadForce (resolveLoads params))"

definition totalMomentAbout :: "real \<Rightarrow> SimulationParams \<Rightarrow> Reactions \<Rightarrow> real" where
  "totalMomentAbout pivot params R =
     r_Ra R * (fst (supportPositions params) - pivot)
     + r_Rb R * (snd (supportPositions params) - pivot)
     + r_Ma R
     + sum_list (map (loadMomentAbout pivot) (resolveLoads params))"

section \<open>Concrete configurations\<close>

text \<open>The default beam on two supports \<open>1e-7\<close> apart.\<close>

definition nearCoincident :: SimulationParams where
  "nearCoincident = defaultParams\<lparr> beamType := overhanging, supportA := 3,
      supportB := 3 + 1 / 10000000 \<rparr>"

text \<open>The default beam on two supports at the same place, and on supports at 4 and 7.\<close>

definition coincidentSupports :: SimulationParams where
  "coincidentSupports = defaultParams\<lparr> beamType := overhanging, supportA := 4, supportB := 4 \<rparr>"

definition separateSupports :: SimulationParams where
  "separateSupports = defaultParams\<lparr> beamType := overhanging, supportA := 4, supportB := 7 \<rparr>"

text \<open>The default beam (length 8) with its base load placed at 10.\<close>

definition loadBeyondEnd :: SimulationParams where
  "loadBeyondEnd = defaultParams\<lparr> loadPosition := 10 \<rparr>"

text \<open>
  The configuration with the base load position clamped into \<open>[0, L]\<close>, in the words of
  the specification: \<open>min(max(position, 0), L)\<close>.
\<close>

definition clampLoadPosition :: "SimulationParams \<Rightarrow> SimulationParams" where
  "clampLoadPosition params =
     params\<lparr> loadPosition := min (max (loadPosition params) 0) (beam_length params) \<rparr>"

text \<open>The default beam as a cantilever with the load at its free end.\<close>

definition cantileverTipLoad :: SimulationParams where
  "cantileverTipLoad = defaultParams\<lparr> beamType := cantilever, loadPosition := 8 \<rparr>"

text \<open>
  The nodes of the mesh, and the physical deflection \<open>v\<close> of the beam at a node (the
  closed-form field at the node's undeformed \<open>x\<close>); the largest \<open>|v|\<close> over the nodes,
  0 for an empty mesh.
\<close>

definition meshNodes :: "SimulationParams \<Rightarrow> NodePoint list" where
  "meshNodes params = concat (map e_nodes (calculateBeamPhysics params))"

definition physicalDeflection :: "SimulationParams \<Rightarrow> NodePoint \<Rightarrow> real" where
  "physicalDeflection params n = f_v (beamField params (n_x n))"

definition maxAbsDeflection :: "SimulationParams \<Rightarrow> real" where
  "maxAbsDeflection params =
     Max (insert 0 ((\<lambda>n. \<bar>physicalDeflection params n\<bar>) ` set (meshNodes params)))"

text \<open>The default beam on a mesh of two by one cells, with a given deformation scale.\<close>

definition coarseMesh :: "real \<Rightarrow> SimulationParams" where
  "coarseMesh s = defaultParams\<lparr> meshDensityX := 2, meshDensityY := 1, deformationScale := s \<rparr>"

text \<open>
  The divisors met by the field solver are non-zero: the source then computes
  finite numbers, and the real-valued model computes the same ones.
\<close>

definition divisorsNonzero :: "SimulationParams \<Rightarrow> bool" where
  "divisorsNonzero params \<longleftrightarrow>
     youngsModulus params \<noteq> 0 \<and> sp_I (calculateSectionProperties params) \<noteq> 0
     \<and> beam_length params \<noteq> 0"

text \<open>
  The interval of a step result, and the properties the specification asks of the
  list of intervals: each right end is the next left end (contiguous); the set the
  closed intervals cover.
\<close>

definition stepInterval :: "StepResult \<Rightarrow> real \<times> real" where
  "stepInterval s = (s_xA s, s_xB s)"

fun contiguous :: "(real \<times> real) list \<Rightarrow> bool" where
  "contiguous (a # b # rest) \<longleftrightarrow> snd a = fst b \<and> contiguous (b # rest)"
| "contiguous [a] \<longleftrightarrow> True"
| "contiguous [] \<longleftrightarrow> True"

definition coveredSet :: "(real \<times> real) list \<Rightarrow> real set" where
  "coveredSet ivs = (\<Union>iv\<in>set ivs. {fst iv..snd iv})"

text \<open>
  Every collected point (beam end, support of an overhanging beam, load point) lies
  on the beam; any two different ones are at least 0.01 apart.
\<close>

definition pointsOnBeam :: "SimulationParams \<Rightarrow> bool" where
  "pointsOnBeam params \<longleftrightarrow>
     (\<forall>x\<in>set (collectedPoints params). 0 \<le> x \<and> x \<le> beam_length params)"

definition wellSeparated :: "SimulationParams \<Rightarrow> bool" where
  "wellSeparated params \<longleftrightarrow>
     (\<forall>x\<in>set (collectedPoints params). \<forall>y\<in>set (collectedPoints params).
        x \<noteq> y \<longrightarrow> 1 / 100 \<le> \<bar>x - y\<bar>)"

text \<open>The pairs of neighbours of a list, in order.\<close>

fun consecutivePairs :: "'a list \<Rightarrow> ('a \<times> 'a) list" where
  "consecutivePairs (a # b # rest) = (a, b) # consecutivePairs (b # rest)"
| "consecutivePairs [a] = []"
| "consecutivePairs [] = []"

text \<open>A point load at 5 and another at 5.005 on the default beam.\<close>

definition pointLoadAt :: "real \<Rightarrow> real \<Rightarrow> LoadDefinition" where
  "pointLoadAt w pos = \<lparr> l_id = ''p'', l_type = load_P, l_val = w, l_x = Some pos,
     l_x1 = None, l_x2 = None, l_peak = None \<rparr>"

definition closeLoads :: SimulationParams where
  "closeLoads = defaultParams\<lparr> customLoads := [pointLoadAt 1000 5, pointLoadAt 1000 (1001 / 200)] \<rparr>"

text \<open>
  What acts at a point \<open>b\<close> of the beam: the sum of the point loads there, the sum of
  the applied moments there, and the support reactions there (a cantilever's wall
  is at the left end of the first segment and never between two segments).
\<close>

definition pointLoadsAt :: "real \<Rightarrow> LoadDefinition list \<Rightarrow> real" where
  "pointLoadsAt b loads =
     sum_list (map l_val (filter (\<lambda>l. l_type l = load_P \<and> l_x l = Some b) loads))"

definition appliedMomentsAt :: "real \<Rightarrow> LoadDefinition list \<Rightarrow> real" where
  "appliedMomentsAt b loads =
     sum_list (map l_val (filter (\<lambda>l. l_type l = load_M \<and> l_x l = Some b) loads))"

definition supportReactionsAt :: "real \<Rightarrow> SimulationParams \<Rightarrow> Reactions \<Rightarrow> real" where
  "supportReactionsAt b params R =
     (if beamType params = cantilever then 0
      else (if fst (supportPositions params) = b then r_Ra R else 0)
         + (if snd (supportPositions params) = b then r_Rb R else 0))"

text \<open>Every distributed load runs from its \<open>x1\<close> to an \<open>x2\<close> not left of it.\<close>

definition rangeLoadsOrdered :: "SimulationParams \<Rightarrow> bool" where
  "rangeLoadsOrdered params \<longleftrightarrow>
     (\<forall>l\<in>set (resolveLoads params).
        (l_type l = load_U \<or> l_type l = load_T) \<and> l_x1 l \<noteq> None \<and> l_x2 l \<noteq> None
        \<longrightarrow> the (l_x1 l) \<le> the (l_x2 l))"

text \<open>
  A point that is not strictly inside either of two neighbouring segments \<open>[a, b]\<close>
  and \<open>[b, c]\<close>.
\<close>

definition avoidsInteriors :: "real \<Rightarrow> real \<Rightarrow> real \<Rightarrow> real \<Rightarrow> bool" where
  "avoidsInteriors a b c x \<longleftrightarrow> x \<le> a \<or> x = b \<or> c \<le> x"

text \<open>
  The default beam as an overhanging beam (supports at 1 and 7), and the default
  beam under a point load at 2, an applied moment at 4 and a uniform load on [4, 6].
\<close>

definition overhangingDefault :: SimulationParams where
  "overhangingDefault = defaultParams\<lparr> beamType := overhanging \<rparr>"

definition appliedMomentAt :: "real \<Rightarrow> real \<Rightarrow> LoadDefinition" where
  "appliedMomentAt w pos = \<lparr> l_id = ''m'', l_type = load_M, l_val = w, l_x = Some pos,
     l_x1 = None, l_x2 = None, l_peak = None \<rparr>"

definition uniformLoadOn :: "real \<Rightarrow> real \<Rightarrow> real \<Rightarrow> LoadDefinition" where
  "uniformLoadOn w from to = \<lparr> l_id = ''u'', l_type = load_U, l_val = w, l_x = None,
     l_x1 = Some from, l_x2 = Some to, l_peak = None \<rparr>"

definition mixedLoads :: SimulationParams where
  "mixedLoads = defaultParams\<lparr> customLoads :=
     [pointLoadAt 1000 2, appliedMomentAt 500 4, uniformLoadOn 200 4 6] \<rparr>"






















section \<open>Properties of the section calculator\<close>

lemma cube_mono_pos:
  fixes a b :: real
  assumes "0 < a" "a \<le> b"
  shows "a ^ 3 \<le> b ^ 3"
  using assms by (intro power_mono) simp_all

lemma ibeam_hollow_nonneg:
  fixes B H tf tw :: real
  assumes "0 < B" "0 < H" "0 < tf" "0 < tw" "0 < H - 2 * tf" "0 < B - tw"
  shows "0 < B * H ^ 3 - (B - tw) * (H - 2 * tf) ^ 3"
proof -
  have "(H - 2 * tf) ^ 3 \<le> H ^ 3"
    using assms by (intro cube_mono_pos) simp_all
  moreover have "0 < (H - 2 * tf) ^ 3" using assms by simp
  ultimately have "(B - tw) * (H - 2 * tf) ^ 3 \<le> (B - tw) * H ^ 3"
    using assms by (intro mult_left_mono) simp_all
  also have "\<dots> < B * H ^ 3"
    using assms by (intro mult_strict_right_mono) simp_all
  finally show ?thesis by simp
qed

text \<open>
  Claim C6.  For an I-beam section the calculator returns
  \<open>I = (B\<cdot>H\<^sup>3 - (B - tw)\<cdot>(H - 2\<cdot>tf)\<^sup>3) / 12\<close> when both inner dimensions \<open>H - 2\<cdot>tf\<close> and
  \<open>B - tw\<close> are positive, and the solid outer rectangle's \<open>I = B\<cdot>H\<^sup>3 / 12\<close> as soon as
  one of them is not; with the positive dimensions of a SectionDescriptor the
  returned inertia is never negative (and, being a real number, never NaN).
\<close>

theorem ibeam_inertia_hollow_or_solid:
  assumes "sectionType params = ibeam"
  shows "sp_I (calculateSectionProperties params) =
           (if 0 < height params - 2 * flangeThickness params
              \<and> 0 < flangeWidth params - webThickness params
            then (flangeWidth params * height params ^ 3
                   - (flangeWidth params - webThickness params)
                     * (height params - 2 * flangeThickness params) ^ 3) / 12
            else flangeWidth params * height params ^ 3 / 12)
         \<and> (0 < height params \<and> 0 < flangeWidth params
              \<and> 0 < flangeThickness params \<and> 0 < webThickness params
            \<longrightarrow> 0 \<le> sp_I (calculateSectionProperties params))"
proof (intro conjI impI)
  show "sp_I (calculateSectionProperties params) =
           (if 0 < height params - 2 * flangeThickness params
              \<and> 0 < flangeWidth params - webThickness params
            then (flangeWidth params * height params ^ 3
                   - (flangeWidth params - webThickness params)
                     * (height params - 2 * flangeThickness params) ^ 3) / 12
            else flangeWidth params * height params ^ 3 / 12)"
    using assms by (simp add: calculateSectionProperties_def Let_def)
next
  assume pos: "0 < height params \<and> 0 < flangeWidth params
    \<and> 0 < flangeThickness params \<and> 0 < webThickness params"
  show "0 \<le> sp_I (calculateSectionProperties params)"
  proof (cases "0 < height params - 2 * flangeThickness params
                 \<and> 0 < flangeWidth params - webThickness params")
    case True
    then have "0 < flangeWidth params * height params ^ 3
                 - (flangeWidth params - webThickness params)
                   * (height params - 2 * flangeThickness params) ^ 3"
      using pos by (intro ibeam_hollow_nonneg) simp_all
    then show ?thesis
      using assms True by (simp add: calculateSectionProperties_def Let_def)
  next
    case False
    have "0 \<le> flangeWidth params * height params ^ 3" using pos by simp
    then show ?thesis
      using assms False by (auto simp add: calculateSectionProperties_def Let_def)
  qed
qed

text \<open>
  The theorem at the default I-beam dimensions (hollow formula) and at a flange
  thickness of 0.3 with height 0.5, where \<open>H - 2\<cdot>tf \<le> 0\<close> (solid fallback).
\<close>

theorem ibeam_inertia_hollow_or_solid_witness:
  "sp_I (calculateSectionProperties (defaultParams\<lparr>sectionType := ibeam\<rparr>))
     = 81327 / 100000000
   \<and> 0 \<le> sp_I (calculateSectionProperties (defaultParams\<lparr>sectionType := ibeam\<rparr>))
   \<and> sp_I (calculateSectionProperties
        (defaultParams\<lparr>sectionType := ibeam, flangeThickness := 3 / 10\<rparr>))
     = (3 / 10) * (1 / 2) ^ 3 / 12
   \<and> 0 \<le> sp_I (calculateSectionProperties
        (defaultParams\<lparr>sectionType := ibeam, flangeThickness := 3 / 10\<rparr>))"
  using ibeam_inertia_hollow_or_solid [of "defaultParams\<lparr>sectionType := ibeam\<rparr>"]
    ibeam_inertia_hollow_or_solid
      [of "defaultParams\<lparr>sectionType := ibeam, flangeThickness := 3 / 10\<rparr>"]
  by (simp add: defaultParams_def power3_eq_cube)

section \<open>Properties of the bearing load distribution\<close>

lemma angleDiff_range:
  assumes "0 \<le> theta" "theta < 2 * pi"
  shows "0 \<le> angleDiff theta \<and> angleDiff theta \<le> pi"
  using assms pi_gt_zero
  by (auto simp add: angleDiff_def loadVectorAngle_def Let_def abs_if)

lemma angleDiff_cos: "cos (angleDiff theta) = cos (theta - loadVectorAngle)"
  by (auto simp add: angleDiff_def Let_def abs_if cos_diff cos_minus)

lemma angleDiff_is_distance:
  assumes "0 \<le> theta" "theta < 2 * pi"
  shows "angleDiff theta = angularDistance theta loadVectorAngle"
proof -
  have "arccos (cos (angleDiff theta)) = angleDiff theta"
    using angleDiff_range [OF assms] by (intro arccos_cos) simp_all
  then show ?thesis by (simp add: angularDistance_def angleDiff_cos)
qed

lemma loop_indices_nth:
  assumes "real i < m"
  shows "i < length (loop_indices m)" and "loop_indices m ! i = i"
proof -
  have "int i < \<lceil>m\<rceil>" using assms by (simp add: less_ceiling_iff)
  then have "i < nat \<lceil>m\<rceil>" by linarith
  then show "i < length (loop_indices m)" and "loop_indices m ! i = i"
    by (simp_all add: loop_indices_def)
qed

lemma ball_angle_range:
  assumes "1 \<le> bc" "real i < bc"
  shows "0 \<le> (2 * pi * real i) / bc" and "(2 * pi * real i) / bc < 2 * pi"
proof -
  have bc: "0 < bc" using assms by simp
  show "0 \<le> (2 * pi * real i) / bc" using bc by simp
  have "2 * pi * real i < 2 * pi * bc"
    using assms pi_gt_zero by (intro mult_strict_left_mono) simp_all
  then show "(2 * pi * real i) / bc < 2 * pi"
    using bc by (simp add: pos_divide_less_eq)
qed

text \<open>
  Claim C7.  With at least one ball, ball \<open>i\<close> sits at \<open>\<theta> = 2\<pi>i / ballCount\<close> and
  carries \<open>Qmax \<cdot> cos(\<psi>)\<^sup>1\<^sup>.\<^sup>5\<close> when its angular distance \<open>\<psi>\<close> from the downward load
  vector (wrapped to \<open>[0, \<pi>]\<close>) is below \<open>\<pi>/2\<close>, and exactly 0 otherwise, where
  \<open>Qmax = radialLoad \<cdot> 5 / ballCount\<close>.
\<close>

theorem stribeck_load_distribution:
  assumes "1 \<le> ballCount params" and "real i < ballCount params"
  shows "i < length (calculateBearingPhysics params)
       \<and> el_angle (calculateBearingPhysics params ! i) = 2 * pi * real i / ballCount params
       \<and> 0 \<le> angularDistance (2 * pi * real i / ballCount params) loadVectorAngle
       \<and> angularDistance (2 * pi * real i / ballCount params) loadVectorAngle \<le> pi
       \<and> el_load (calculateBearingPhysics params ! i) =
           (if angularDistance (2 * pi * real i / ballCount params) loadVectorAngle < pi / 2
            then (radialLoad params * 5 / ballCount params)
                 * cos (angularDistance (2 * pi * real i / ballCount params) loadVectorAngle)
                   powr (3 / 2)
            else 0)"
proof -
  let ?theta = "2 * pi * real i / ballCount params"
  have len: "i < length (calculateBearingPhysics params)"
    using loop_indices_nth(1) [OF assms(2)] by (simp add: calculateBearingPhysics_def)
  have el: "calculateBearingPhysics params ! i = bearingElement params i"
    using loop_indices_nth [OF assms(2)] by (simp add: calculateBearingPhysics_def)
  have dist: "angleDiff ?theta = angularDistance ?theta loadVectorAngle"
    using ball_angle_range [OF assms] by (intro angleDiff_is_distance)
  have rng: "0 \<le> angleDiff ?theta \<and> angleDiff ?theta \<le> pi"
    using ball_angle_range [OF assms] by (intro angleDiff_range)
  have mx: "max 1 (ballCount params) = ballCount params" using assms(1) by simp
  have ld: "el_load (bearingElement params i) =
          (if angleDiff ?theta < pi / 2
           then (radialLoad params * 5 / ballCount params) * cos (angleDiff ?theta) powr (3 / 2)
           else 0)"
    by (simp add: bearingElement_def Let_def mx)
  have ang: "el_angle (bearingElement params i) = ?theta"
    by (simp add: bearingElement_def Let_def)
  show ?thesis using len rng ld ang unfolding el dist by simp
qed

lemma arccos_cos_3half: "arccos (cos (3 * pi / 2)) = pi / 2"
proof -
  have "cos (3 * pi / 2) = 0" using cos_3over2_pi by (simp add: mult.commute)
  then show ?thesis by simp
qed

text \<open>
  The scenario of the specification (outer radius 100, inner radius 60, 12 balls,
  radial load 5000): ball 9 lies on the load vector (\<open>\<psi> = 0\<close>) and carries
  \<open>Qmax = 6250/3 \<approx> 2083.3\<close>; ball 0 (\<open>\<psi> = \<pi>/2\<close>) and ball 3 (\<open>\<psi> = \<pi>\<close>) carry nothing.
\<close>

theorem stribeck_load_distribution_witness:
  "el_load (calculateBearingPhysics defaultBearing ! 9) = 6250 / 3
   \<and> el_load (calculateBearingPhysics defaultBearing ! 0) = 0
   \<and> el_load (calculateBearingPhysics defaultBearing ! 3) = 0
   \<and> angularDistance (2 * pi * real (9::nat) / 12) loadVectorAngle = 0
   \<and> angularDistance (2 * pi * real (0::nat) / 12) loadVectorAngle = pi / 2
   \<and> angularDistance (2 * pi * real (3::nat) / 12) loadVectorAngle = pi"
  using stribeck_load_distribution [of defaultBearing 9]
    stribeck_load_distribution [of defaultBearing 0]
    stribeck_load_distribution [of defaultBearing 3]
    arccos_cos_3half
  by (simp add: defaultBearing_def angularDistance_def loadVectorAngle_def cos_minus)

section \<open>Properties of the reaction solver\<close>

lemma reactions_of_diagrams:
  "d_reactions (calculateAnalyticalDiagrams params) = solveReactions params"
  by (simp add: calculateAnalyticalDiagrams_def Let_def)

lemma accumulateLoad_resultants:
  "accumulateLoad supA l (sumFy, sumMa) =
     (sumFy + loadForce l, sumMa + loadMomentAbout supA l)"
  by (cases "l_type l")
     (auto simp add: accumulateLoad_def loadForce_def loadMomentAbout_def
        triangleCentroid_def Let_def field_simps split: option.splits)

lemma fold_accumulateLoad:
  "fold (accumulateLoad supA) loads (sumFy, sumMa) =
     (sumFy + sum_list (map loadForce loads),
      sumMa + sum_list (map (loadMomentAbout supA) loads))"
  by (induction loads arbitrary: sumFy sumMa)
     (simp_all add: accumulateLoad_resultants add.assoc)

lemma loadSums_resultants:
  "loadSums params =
     (sum_list (map loadForce (resolveLoads params)),
      sum_list (map (loadMomentAbout (fst (supportPositions params))) (resolveLoads params)))"
  by (simp add: loadSums_def fold_accumulateLoad)

lemma loadMoment_shift:
  "loadMomentAbout pivot l = loadMomentAbout a l + loadForce l * (a - pivot)"
  by (cases "l_type l")
     (auto simp add: loadForce_def loadMomentAbout_def field_simps split: option.splits)

lemma sum_loadMoment_shift:
  "sum_list (map (loadMomentAbout pivot) loads) =
     sum_list (map (loadMomentAbout a) loads) + sum_list (map loadForce loads) * (a - pivot)"
  by (induction loads) (simp_all add: loadMoment_shift [of pivot _ a] algebra_simps)

lemma effectiveSpan_nonzero: "effectiveSpan params \<noteq> 0"
  by (auto simp add: effectiveSpan_def Let_def)

text \<open>
  Claim C1, amended.  Whenever the solver divides by the true span (a cantilever, or
  two supports at least \<open>1e-6\<close> apart), the reactions returned by
  calculateAnalyticalDiagrams are in global equilibrium with the loads: the vertical
  forces sum to zero and the moments about every pivot sum to zero, exactly.
\<close>

theorem global_equilibrium:
  assumes "beamType params = cantilever
           \<or> 1 / 1000000 \<le> \<bar>snd (supportPositions params) - fst (supportPositions params)\<bar>"
  shows "totalVerticalForce params (d_reactions (calculateAnalyticalDiagrams params)) = 0
       \<and> totalMomentAbout pivot params (d_reactions (calculateAnalyticalDiagrams params)) = 0"
proof (cases "beamType params = cantilever")
  case True
  then have sp: "supportPositions params = (0, 0)" by (simp add: supportPositions_def)
  show ?thesis
    using True
    by (simp add: reactions_of_diagrams solveReactions_def loadSums_resultants
          totalVerticalForce_def totalMomentAbout_def sp
          sum_loadMoment_shift [of pivot _ 0] algebra_simps)
next
  case False
  with assms have big: "1 / 1000000 \<le> \<bar>snd (supportPositions params) - fst (supportPositions params)\<bar>"
    by simp
  define supA where "supA = fst (supportPositions params)"
  define supB where "supB = snd (supportPositions params)"
  define F where "F = sum_list (map loadForce (resolveLoads params))"
  define MA where "MA = sum_list (map (loadMomentAbout supA) (resolveLoads params))"
  have span: "effectiveSpan params = supB - supA"
    using big by (simp add: effectiveSpan_def Let_def supA_def supB_def)
  have nz: "supB - supA \<noteq> 0" using big by (auto simp add: supA_def supB_def)
  have R: "solveReactions params =
             \<lparr> r_Ra = - F - (- MA / (supB - supA)), r_Rb = - MA / (supB - supA), r_Ma = 0 \<rparr>"
    using False
    by (simp add: solveReactions_def loadSums_resultants span Let_def F_def MA_def supA_def)
  have force: "totalVerticalForce params (solveReactions params) = 0"
    by (simp add: totalVerticalForce_def R F_def)
  define Rb where "Rb = - MA / (supB - supA)"
  have Rb: "Rb * (supB - supA) = - MA" using nz by (simp add: Rb_def)
  have "totalMomentAbout pivot params (solveReactions params) =
          (- F - Rb) * (supA - pivot) + Rb * (supB - pivot) + (MA + F * (supA - pivot))"
    by (simp add: totalMomentAbout_def R supA_def supB_def F_def MA_def Rb_def
          sum_loadMoment_shift [of pivot _ "fst (supportPositions params)"])
  also have "\<dots> = Rb * (supB - supA) + MA"
    by (simp add: algebra_simps)
  also have "\<dots> = 0" by (simp add: Rb)
  finally show ?thesis using force by (simp add: reactions_of_diagrams)
qed

text \<open>
  As stated for every configuration the claim fails: with supports at 3 and
  3.0000001 on the default beam the span is replaced by 1, the reactions are
  \<open>Ra = 0\<close>, \<open>Rb = 50000\<close>, and the moments about \<open>x = 3\<close> sum to \<open>-49999.995\<close>.
\<close>

theorem global_equilibrium_counterexample:
  "0 \<le> supportA nearCoincident \<and> supportA nearCoincident < supportB nearCoincident
   \<and> supportB nearCoincident \<le> beam_length nearCoincident
   \<and> totalMomentAbout 3 nearCoincident
        (d_reactions (calculateAnalyticalDiagrams nearCoincident)) = - 49999995 / 1000
   \<and> totalMomentAbout 3 nearCoincident
        (d_reactions (calculateAnalyticalDiagrams nearCoincident)) \<noteq> 0"
  by (simp add: reactions_of_diagrams nearCoincident_def defaultParams_def solveReactions_def
       loadSums_def resolveLoads_def defaultLoad_def accumulateLoad_def supportPositions_def
       effectiveSpan_def Let_def totalMomentAbout_def loadMomentAbout_def)

text \<open>The default beam: \<open>Ra = Rb = 25000\<close>, in equilibrium about \<open>x = 5\<close>.\<close>

theorem global_equilibrium_witness:
  "totalVerticalForce defaultParams (d_reactions (calculateAnalyticalDiagrams defaultParams)) = 0
   \<and> totalMomentAbout 5 defaultParams (d_reactions (calculateAnalyticalDiagrams defaultParams)) = 0
   \<and> d_reactions (calculateAnalyticalDiagrams defaultParams)
        = \<lparr> r_Ra = 25000, r_Rb = 25000, r_Ma = 0 \<rparr>"
  using global_equilibrium [of defaultParams 5]
  by (simp add: reactions_of_diagrams defaultParams_def solveReactions_def
       loadSums_def resolveLoads_def defaultLoad_def accumulateLoad_def supportPositions_def
       effectiveSpan_def Let_def)

lemmas reaction_eval = reactions_of_diagrams defaultParams_def solveReactions_def
       loadSums_def resolveLoads_def defaultLoad_def accumulateLoad_def supportPositions_def
       effectiveSpan_def Let_def

text \<open>
  Claim C8, amended.  For a two-support configuration whose supports coincide (span
  below \<open>1e-6\<close> in size) the solver divides by 1 instead: \<open>Rb = -\<Sigma>Ma / 1\<close> and
  \<open>Ra = -\<Sigma>Fy - Rb\<close>, so no division by zero occurs.  The result carries no mark of
  the degenerate configuration: it is the record of \<open>xs\<close>, \<open>Vs\<close>, \<open>Ms\<close> and the
  reactions only.
\<close>

theorem coincident_supports_span_one:
  assumes "beamType params \<noteq> cantilever"
    and "\<bar>snd (supportPositions params) - fst (supportPositions params)\<bar> < 1 / 1000000"
  shows "effectiveSpan params = 1
       \<and> r_Rb (d_reactions (calculateAnalyticalDiagrams params)) = - snd (loadSums params) / 1
       \<and> r_Ra (d_reactions (calculateAnalyticalDiagrams params))
            = - fst (loadSums params)
              - r_Rb (d_reactions (calculateAnalyticalDiagrams params))
       \<and> r_Ma (d_reactions (calculateAnalyticalDiagrams params)) = 0"
  using assms
  by (simp add: reactions_of_diagrams solveReactions_def effectiveSpan_def Let_def
        split: prod.splits)

text \<open>Supports both at 4 on the default beam: \<open>Rb = 0\<close>, \<open>Ra = 50000\<close>.\<close>

theorem coincident_supports_span_one_witness:
  "effectiveSpan coincidentSupports = 1
   \<and> d_reactions (calculateAnalyticalDiagrams coincidentSupports)
        = \<lparr> r_Ra = 50000, r_Rb = 0, r_Ma = 0 \<rparr>"
  using coincident_supports_span_one [of coincidentSupports]
  by (simp add: coincidentSupports_def reaction_eval)

lemma sweepStation_ignores_supportB:
  assumes "r_Rb R = 0" and "beamType p = beamType q"
    and "fst (supportPositions p) = fst (supportPositions q)"
  shows "sweepStation p R loads dx = sweepStation q R loads dx"
  using assms by (simp add: sweepStation_def fun_eq_iff Let_def)

text \<open>
  The part of the claim that fails: the result does not tell the caller that the
  configuration is degenerate.  The coincident supports at 4 and the distinct
  supports at 4 and 7 return the very same diagram data.
\<close>

theorem degenerate_not_flagged:
  "supportA coincidentSupports = supportB coincidentSupports
   \<and> supportA separateSupports < supportB separateSupports
   \<and> calculateAnalyticalDiagrams coincidentSupports = calculateAnalyticalDiagrams separateSupports"
proof -
  have R: "solveReactions coincidentSupports = \<lparr> r_Ra = 50000, r_Rb = 0, r_Ma = 0 \<rparr>"
      "solveReactions separateSupports = \<lparr> r_Ra = 50000, r_Rb = 0, r_Ma = 0 \<rparr>"
    by (simp_all add: coincidentSupports_def separateSupports_def reaction_eval)
  have L: "resolveLoads coincidentSupports = resolveLoads separateSupports"
     "beam_length coincidentSupports = beam_length separateSupports"
    by (simp_all add: coincidentSupports_def separateSupports_def resolveLoads_def defaultLoad_def)
  have "sweepStation coincidentSupports \<lparr> r_Ra = 50000, r_Rb = 0, r_Ma = 0 \<rparr> loads dx
        = sweepStation separateSupports \<lparr> r_Ra = 50000, r_Rb = 0, r_Ma = 0 \<rparr> loads dx"
    for loads dx
    by (intro sweepStation_ignores_supportB)
       (simp_all add: coincidentSupports_def separateSupports_def supportPositions_def)
  then have "sweep coincidentSupports \<lparr> r_Ra = 50000, r_Rb = 0, r_Ma = 0 \<rparr> n
           = sweep separateSupports \<lparr> r_Ra = 50000, r_Rb = 0, r_Ma = 0 \<rparr> n" for n
    by (simp add: sweep_def L)
  then show ?thesis
    by (simp add: calculateAnalyticalDiagrams_def Let_def R L)
       (simp add: coincidentSupports_def separateSupports_def)
qed

subsection \<open>Clamping of the base load position\<close>

text \<open>The field solver only reads the load position through its clamp.\<close>

lemma safeLoadPosition_clamp:
  "safeLoadPosition (clampLoadPosition params) = safeLoadPosition params"
  by (auto simp add: safeLoadPosition_def clampLoadPosition_def min_def max_def)

lemma calculateSectionProperties_clamp:
  "calculateSectionProperties (clampLoadPosition params) = calculateSectionProperties params"
  by (simp add: calculateSectionProperties_def clampLoadPosition_def)

lemma field_solver_clamps:
  "calculateBeamPhysics (clampLoadPosition params) = calculateBeamPhysics params"
proof -
  have "beamField (clampLoadPosition params) = beamField params"
    by (simp add: beamField_def fun_eq_iff safeLoadPosition_clamp
          calculateSectionProperties_clamp) (simp add: clampLoadPosition_def)
  then have "getNode (clampLoadPosition params) = getNode params"
    by (simp add: getNode_def fun_eq_iff calculateSectionProperties_clamp effectiveScale_def)
       (simp add: clampLoadPosition_def)
  then have "meshElement (clampLoadPosition params) = meshElement params"
    by (simp add: meshElement_def fun_eq_iff)
  then show ?thesis
    by (simp add: calculateBeamPhysics_def) (simp add: clampLoadPosition_def)
qed

text \<open>
  Claim C9 at a failing input.  The diagram solver uses the base load position as it
  is: with the load at 10 on the beam of length 8 the reactions are \<open>Ra = -12500\<close>
  and \<open>Rb = 62500\<close>, while the same configuration with the position clamped to 8
  gives \<open>Ra = 0\<close> and \<open>Rb = 50000\<close>.
\<close>

theorem diagram_solver_does_not_clamp:
  "loadPosition (clampLoadPosition loadBeyondEnd) = 8
   \<and> d_reactions (calculateAnalyticalDiagrams loadBeyondEnd)
       = \<lparr> r_Ra = - 12500, r_Rb = 62500, r_Ma = 0 \<rparr>
   \<and> d_reactions (calculateAnalyticalDiagrams (clampLoadPosition loadBeyondEnd))
       = \<lparr> r_Ra = 0, r_Rb = 50000, r_Ma = 0 \<rparr>"
  by (simp add: loadBeyondEnd_def clampLoadPosition_def reaction_eval)

section \<open>Properties of the beam field solver\<close>

lemma defaultParams_sel:
  "beam_length defaultParams = 8" "height defaultParams = 1 / 2"
  "force defaultParams = - 50000" "youngsModulus defaultParams = 200000000000"
  "meshDensityX defaultParams = 40" "meshDensityY defaultParams = 8"
  "deformationScale defaultParams = 50" "beamType defaultParams = simplySupported"
  "loadPosition defaultParams = 4" "supportA defaultParams = 1" "supportB defaultParams = 7"
  "customLoads defaultParams = []" "sectionType defaultParams = rectangular"
  "sectionWidth defaultParams = 1 / 5" "flangeWidth defaultParams = 3 / 10"
  "flangeThickness defaultParams = 1 / 50" "webThickness defaultParams = 3 / 200"
  by (simp_all add: defaultParams_def)


subsection \<open>Sign of the bending stress\<close>

lemma defaultParams_I: "sp_I (calculateSectionProperties defaultParams) = 1 / 480"
  by (simp add: calculateSectionProperties_def defaultParams_sel power3_eq_cube)

lemma defaultParams_M: "f_M (beamField defaultParams 4) = - 100000"
  by (simp add: beamField_def Let_def safeLoadPosition_def defaultParams_sel)

lemma cantileverTipLoad_sel:
  "beam_length cantileverTipLoad = 8" "height cantileverTipLoad = 1 / 2"
  "force cantileverTipLoad = - 50000" "meshDensityX cantileverTipLoad = 40"
  "meshDensityY cantileverTipLoad = 8" "beamType cantileverTipLoad = cantilever"
  "loadPosition cantileverTipLoad = 8" "sectionType cantileverTipLoad = rectangular"
  "sectionWidth cantileverTipLoad = 1 / 5"
  by (simp_all add: cantileverTipLoad_def defaultParams_sel)

lemma cantileverTipLoad_I: "sp_I (calculateSectionProperties cantileverTipLoad) = 1 / 480"
  by (simp add: calculateSectionProperties_def cantileverTipLoad_sel power3_eq_cube)

lemma cantileverTipLoad_M: "f_M (beamField cantileverTipLoad 0) = 400000"
  by (simp add: beamField_def Let_def safeLoadPosition_def cantileverTipLoad_sel)

text \<open>
  Claim C2 at a failing input.  On the default beam (simply supported, base load
  \<open>-50000\<close>, that is downward, at mid-span) the node under the load on the top
  fibre \<open>y = +h/2\<close> has stress \<open>+1.2e7\<close> and the one on the bottom fibre \<open>-1.2e7\<close>; on
  the cantilever with the same load at its free end the top fibre at the fixed end
  has stress \<open>-4.8e7\<close>.  A negative stress is compression, so the signs are the
  reverse of the physical ones in both cases.
\<close>

theorem bending_stress_sign_reversed:
  "n_x (getNode defaultParams 20 8) = 4
   \<and> n_y (getNode defaultParams 20 8) = 1 / 4
   \<and> n_stress (getNode defaultParams 20 8) = 12000000
   \<and> n_y (getNode defaultParams 20 0) = - 1 / 4
   \<and> n_stress (getNode defaultParams 20 0) = - 12000000
   \<and> n_x (getNode cantileverTipLoad 0 8) = 0
   \<and> n_y (getNode cantileverTipLoad 0 8) = 1 / 4
   \<and> n_stress (getNode cantileverTipLoad 0 8) = - 48000000"
  by (simp add: getNode_def Let_def defaultParams_I defaultParams_M defaultParams_sel
        cantileverTipLoad_I cantileverTipLoad_M cantileverTipLoad_sel)

text \<open>The reversal is systematic, not an accident of the default numbers.\<close>

lemma node_stress_formula:
  "n_stress (getNode params i j) =
     - (f_M (beamField params (n_x (getNode params i j))) * n_y (getNode params i j))
       / sp_I (calculateSectionProperties params)"
  by (simp add: getNode_def Let_def)

lemma simply_supported_moment_negative:
  assumes "beamType params = simplySupported" and "force params < 0"
    and "0 < loadPosition params" and "loadPosition params < beam_length params"
    and "0 < x" and "x < beam_length params"
  shows "f_M (beamField params x) < 0"
proof -
  let ?L = "beam_length params" and ?a = "loadPosition params" and ?P = "force params"
  have safe: "safeLoadPosition params = ?a"
    using assms by (simp add: safeLoadPosition_def)
  have L: "0 < ?L" using assms by simp
  show ?thesis
  proof (cases "x \<le> ?a")
    case True
    have "?P * ((?L - ?a) * x) < 0"
      using assms by (intro mult_neg_pos mult_pos_pos) simp_all
    then have "?P * (?L - ?a) * x / ?L < 0"
      using L by (simp add: divide_neg_pos mult.assoc)
    then show ?thesis using True assms(1) by (simp add: beamField_def Let_def safe)
  next
    case False
    have "?P * (?a * (?L - x)) < 0"
      using assms by (intro mult_neg_pos mult_pos_pos) simp_all
    then have "?P * ?a * (?L - x) / ?L < 0"
      using L by (simp add: divide_neg_pos mult.assoc)
    then show ?thesis using False assms(1) by (simp add: beamField_def Let_def safe)
  qed
qed

lemma simply_supported_top_fibre_positive:
  assumes "beamType params = simplySupported" and "force params < 0"
    and "0 < loadPosition params" and "loadPosition params < beam_length params"
    and "0 < sp_I (calculateSectionProperties params)"
    and "0 < n_x (getNode params i j)" and "n_x (getNode params i j) < beam_length params"
    and "0 < n_y (getNode params i j)"
  shows "0 < n_stress (getNode params i j)"
proof -
  have "f_M (beamField params (n_x (getNode params i j))) < 0"
    using assms by (intro simply_supported_moment_negative) simp_all
  then have "f_M (beamField params (n_x (getNode params i j))) * n_y (getNode params i j) < 0"
    using assms(8) by (rule mult_neg_pos)
  then show ?thesis
    using assms(5) by (simp add: node_stress_formula divide_neg_pos)
qed

lemma cantilever_fixed_end_top_fibre_negative:
  assumes "beamType params = cantilever" and "force params < 0"
    and "0 < loadPosition params" and "loadPosition params \<le> beam_length params"
    and "0 < sp_I (calculateSectionProperties params)"
    and "n_x (getNode params i j) = 0" and "0 < n_y (getNode params i j)"
  shows "n_stress (getNode params i j) < 0"
proof -
  have safe: "safeLoadPosition params = loadPosition params"
    using assms by (simp add: safeLoadPosition_def)
  have "f_M (beamField params 0) = - (force params * loadPosition params)"
    using assms by (simp add: beamField_def Let_def safe)
  moreover have "force params * loadPosition params < 0"
    using assms by (intro mult_neg_pos) simp_all
  ultimately have "0 < f_M (beamField params 0) * n_y (getNode params i j)"
    using assms(7) by (simp add: mult_neg_pos)
  then show ?thesis
    using assms(5,6) by (simp add: node_stress_formula divide_pos_pos)
qed

subsection \<open>The deflection statistic\<close>

lemma statsNode_maxDeflection:
  "maxDeflection (statsNode n s) = max \<bar>n_dy n - n_y n\<bar> (maxDeflection s)"
  by (simp add: statsNode_def Let_def max_def)

lemma fold_statsNode_maxDeflection:
  "maxDeflection (fold statsNode ns s) =
     fold max (map (\<lambda>n. \<bar>n_dy n - n_y n\<bar>) ns) (maxDeflection s)"
  by (induction ns arbitrary: s) (simp_all add: statsNode_maxDeflection)

lemma calculateBeamStats_nodes:
  "calculateBeamStats elements =
     fold statsNode (concat (map e_nodes elements)) \<lparr> maxStress = 0, maxDeflection = 0 \<rparr>"
proof -
  have "fold (\<lambda>el s. fold statsNode (e_nodes el) s) elements s =
        fold statsNode (concat (map e_nodes elements)) s" for s
    by (induction elements arbitrary: s) simp_all
  then show ?thesis by (simp add: calculateBeamStats_def)
qed

lemma maxDeflection_as_Max:
  "maxDeflection (calculateBeamStats elements) =
     Max (insert 0 ((\<lambda>n. \<bar>n_dy n - n_y n\<bar>) ` set (concat (map e_nodes elements))))"
proof -
  have "maxDeflection (calculateBeamStats elements) =
          fold max (map (\<lambda>n. \<bar>n_dy n - n_y n\<bar>) (concat (map e_nodes elements))) 0"
    by (simp add: calculateBeamStats_nodes fold_statsNode_maxDeflection)
  also have "\<dots> = Max (set (0 # map (\<lambda>n. \<bar>n_dy n - n_y n\<bar>) (concat (map e_nodes elements))))"
    by (rule Max.set_eq_fold [symmetric])
  finally show ?thesis by simp
qed

text \<open>The index pairs of the mesh nodes, element by element.\<close>

lemma meshNodes_getNode:
  assumes "n \<in> set (meshNodes params)"
  shows "\<exists>i j. n = getNode params i j"
  using assms
  by (auto simp add: meshNodes_def calculateBeamPhysics_def meshElement_def Let_def)

lemma node_display_deflection:
  "n_dy (getNode params i j) - n_y (getNode params i j) =
     physicalDeflection params (getNode params i j) * effectiveScale params"
  by (simp add: getNode_def physicalDeflection_def Let_def)

lemma Max_scale:
  fixes A :: "real set"
  assumes "finite A" "0 \<le> c"
  shows "Max (insert 0 ((\<lambda>x. c * x) ` A)) = c * Max (insert 0 A)"
proof -
  have "mono (\<lambda>x. c * x)" using assms(2) by (simp add: mono_def mult_left_mono)
  then have "c * Max (insert 0 A) = Max ((\<lambda>x. c * x) ` insert 0 A)"
    using assms(1) by (intro mono_Max_commute) simp_all
  then show ?thesis by simp
qed

lemma max_deflection_formula:
  "maxDeflection (calculateBeamStats (calculateBeamPhysics params)) =
     \<bar>effectiveScale params\<bar> * maxAbsDeflection params"
proof -
  let ?N = "set (meshNodes params)"
  have "(\<lambda>n. \<bar>n_dy n - n_y n\<bar>) ` ?N =
        (\<lambda>x. \<bar>effectiveScale params\<bar> * x) ` ((\<lambda>n. \<bar>physicalDeflection params n\<bar>) ` ?N)"
  proof -
    have "\<bar>n_dy n - n_y n\<bar> = \<bar>effectiveScale params\<bar> * \<bar>physicalDeflection params n\<bar>"
      if hn: "n \<in> ?N" for n
    proof -
      obtain i j where "n = getNode params i j" using meshNodes_getNode [OF hn] by blast
      then show ?thesis by (simp add: node_display_deflection abs_mult mult.commute)
    qed
    then show ?thesis by (auto simp add: image_image intro!: image_cong)
  qed
  then have "maxDeflection (calculateBeamStats (calculateBeamPhysics params)) =
       Max (insert 0 ((\<lambda>x. \<bar>effectiveScale params\<bar> * x)
                        ` ((\<lambda>n. \<bar>physicalDeflection params n\<bar>) ` ?N)))"
    by (simp add: maxDeflection_as_Max meshNodes_def)
  also have "\<dots> = \<bar>effectiveScale params\<bar> * maxAbsDeflection params"
    unfolding maxAbsDeflection_def by (intro Max_scale) simp_all
  finally show ?thesis .
qed

lemma coarseMesh_sel:
  "beam_length (coarseMesh s) = 8" "height (coarseMesh s) = 1 / 2"
  "force (coarseMesh s) = - 50000" "youngsModulus (coarseMesh s) = 200000000000"
  "meshDensityX (coarseMesh s) = 2" "meshDensityY (coarseMesh s) = 1"
  "deformationScale (coarseMesh s) = s" "beamType (coarseMesh s) = simplySupported"
  "loadPosition (coarseMesh s) = 4" "sectionType (coarseMesh s) = rectangular"
  "sectionWidth (coarseMesh s) = 1 / 5"
  by (simp_all add: coarseMesh_def defaultParams_sel)

lemma coarseMesh_I: "sp_I (calculateSectionProperties (coarseMesh s)) = 1 / 480"
  by (simp add: calculateSectionProperties_def coarseMesh_sel power3_eq_cube)

lemma coarseMesh_safe: "safeLoadPosition (coarseMesh s) = 4"
  by (simp add: safeLoadPosition_def coarseMesh_sel)

lemma coarseMesh_v:
  "f_v (beamField (coarseMesh s) 0) = 0"
  "f_v (beamField (coarseMesh s) 4) = - 4 / 3125"
  "f_v (beamField (coarseMesh s) 8) = 0"
  by (simp_all add: beamField_def Let_def coarseMesh_safe coarseMesh_I coarseMesh_sel)

lemma coarseMesh_node_x:
  "n_x (getNode (coarseMesh s) 0 j) = 0"
  "n_x (getNode (coarseMesh s) (Suc 0) j) = 4"
  "n_x (getNode (coarseMesh s) (Suc (Suc 0)) j) = 8"
  by (simp_all add: getNode_def Let_def coarseMesh_sel)

lemma coarseMesh_nodes:
  "meshNodes (coarseMesh s) =
     [getNode (coarseMesh s) 0 0, getNode (coarseMesh s) (Suc 0) 0,
      getNode (coarseMesh s) (Suc 0) (Suc 0), getNode (coarseMesh s) 0 (Suc 0),
      getNode (coarseMesh s) (Suc 0) 0, getNode (coarseMesh s) (Suc (Suc 0)) 0,
      getNode (coarseMesh s) (Suc (Suc 0)) (Suc 0), getNode (coarseMesh s) (Suc 0) (Suc 0)]"
proof -
  have "loop_indices 2 = [0, Suc 0]" "loop_indices 1 = [0]"
    by (simp_all add: loop_indices_def upt_rec)
  then show ?thesis
    by (simp add: meshNodes_def calculateBeamPhysics_def meshElement_def Let_def coarseMesh_sel)
qed

lemma coarseMesh_maxAbs: "maxAbsDeflection (coarseMesh s) = 4 / 3125"
  by (simp add: maxAbsDeflection_def coarseMesh_nodes physicalDeflection_def
        coarseMesh_node_x coarseMesh_v)

lemma effectiveScale_rescaled:
  assumes "deformationScale params \<noteq> 0" and "k \<noteq> 0"
  shows "effectiveScale (params\<lparr>deformationScale := k * deformationScale params\<rparr>)
           = k * effectiveScale params"
  using assms by (simp add: effectiveScale_def)

lemma beamField_rescaled:
  "beamField (params\<lparr>deformationScale := s\<rparr>) = beamField params"
  by (simp add: beamField_def fun_eq_iff safeLoadPosition_def calculateSectionProperties_def)

lemma meshNodes_x_rescaled:
  "map n_x (meshNodes (params\<lparr>deformationScale := s\<rparr>)) = map n_x (meshNodes params)"
  by (simp add: meshNodes_def calculateBeamPhysics_def meshElement_def Let_def
        map_concat o_def getNode_def)

lemma maxAbsDeflection_rescaled:
  "maxAbsDeflection (params\<lparr>deformationScale := s\<rparr>) = maxAbsDeflection params"
proof -
  let ?q = "params\<lparr>deformationScale := s\<rparr>"
  have "(\<lambda>n. \<bar>physicalDeflection ?q n\<bar>) ` set (meshNodes ?q) =
        (\<lambda>x. \<bar>f_v (beamField params x)\<bar>) ` set (map n_x (meshNodes ?q))"
    by (simp add: physicalDeflection_def beamField_rescaled image_image)
  also have "\<dots> = (\<lambda>x. \<bar>f_v (beamField params x)\<bar>) ` set (map n_x (meshNodes params))"
    by (simp only: meshNodes_x_rescaled)
  also have "\<dots> = (\<lambda>n. \<bar>physicalDeflection params n\<bar>) ` set (meshNodes params)"
    by (simp add: physicalDeflection_def image_image)
  finally show ?thesis by (simp add: maxAbsDeflection_def)
qed

text \<open>
  Claim C10, amended.  Where the field solver divides by non-zero numbers, the
  \<open>maxDeflection\<close> statistic over the mesh equals \<open>|s|\<close> times the largest physical
  deflection \<open>|v|\<close> over the mesh nodes, where the effective scale \<open>s\<close> is
  \<open>deformationScale\<close>, or 1 when \<open>deformationScale\<close> is 0; so for a non-zero
  \<open>deformationScale\<close> and a non-zero factor \<open>k\<close>, multiplying \<open>deformationScale\<close> by \<open>k\<close>
  multiplies the reported \<open>maxDeflection\<close> by \<open>|k|\<close>: the statistic is the exaggerated
  display deflection, not the physical one.
\<close>

theorem max_deflection_is_display_deflection:
  assumes "divisorsNonzero params"
  shows "maxDeflection (calculateBeamStats (calculateBeamPhysics params))
           = \<bar>effectiveScale params\<bar> * maxAbsDeflection params
       \<and> (deformationScale params \<noteq> 0 \<and> k \<noteq> 0 \<longrightarrow>
            maxDeflection (calculateBeamStats (calculateBeamPhysics
                (params\<lparr>deformationScale := k * deformationScale params\<rparr>)))
              = \<bar>k\<bar> * maxDeflection (calculateBeamStats (calculateBeamPhysics params)))"
proof (intro conjI impI)
  show "maxDeflection (calculateBeamStats (calculateBeamPhysics params))
           = \<bar>effectiveScale params\<bar> * maxAbsDeflection params"
    by (rule max_deflection_formula)
next
  assume nz: "deformationScale params \<noteq> 0 \<and> k \<noteq> 0"
  let ?q = "params\<lparr>deformationScale := k * deformationScale params\<rparr>"
  have "maxDeflection (calculateBeamStats (calculateBeamPhysics ?q))
          = \<bar>effectiveScale ?q\<bar> * maxAbsDeflection ?q"
    by (rule max_deflection_formula)
  also have "\<dots> = \<bar>k * effectiveScale params\<bar> * maxAbsDeflection params"
    using nz by (simp add: effectiveScale_rescaled maxAbsDeflection_rescaled)
  also have "\<dots> = \<bar>k\<bar> * (\<bar>effectiveScale params\<bar> * maxAbsDeflection params)"
    by (simp add: abs_mult)
  finally show "maxDeflection (calculateBeamStats (calculateBeamPhysics ?q))
      = \<bar>k\<bar> * maxDeflection (calculateBeamStats (calculateBeamPhysics params))"
    by (simp only: max_deflection_formula)
qed

text \<open>
  The default beam on the two-by-one mesh with scale 50: the physical mid-span
  deflection is \<open>0.00128\<close>, the statistic is \<open>0.064\<close>, and it doubles with the scale.
\<close>

theorem max_deflection_is_display_deflection_witness:
  "divisorsNonzero (coarseMesh 50)
   \<and> maxAbsDeflection (coarseMesh 50) = 4 / 3125
   \<and> maxDeflection (calculateBeamStats (calculateBeamPhysics (coarseMesh 50))) = 8 / 125
   \<and> maxDeflection (calculateBeamStats (calculateBeamPhysics
        ((coarseMesh 50)\<lparr>deformationScale := 2 * deformationScale (coarseMesh 50)\<rparr>)))
      = 16 / 125"
proof -
  have d: "divisorsNonzero (coarseMesh 50)"
    by (simp add: divisorsNonzero_def coarseMesh_I coarseMesh_sel)
  show ?thesis
    using d max_deflection_is_display_deflection [OF d, of 2]
    by (simp add: coarseMesh_maxAbs effectiveScale_def coarseMesh_sel)
qed

text \<open>
  As stated the claim fails where the scale is 0 or negative: with
  \<open>deformationScale = 0\<close> the statistic is the physical deflection \<open>0.00128\<close> (scale
  1 is used), not \<open>0 \<cdot> max |v| = 0\<close>; with \<open>deformationScale = -50\<close> it is \<open>0.064\<close>,
  not \<open>-0.064\<close>.
\<close>

theorem max_deflection_counterexample:
  "deformationScale (coarseMesh 0) = 0
   \<and> maxDeflection (calculateBeamStats (calculateBeamPhysics (coarseMesh 0))) = 4 / 3125
   \<and> deformationScale (coarseMesh 0) * maxAbsDeflection (coarseMesh 0) = 0
   \<and> maxDeflection (calculateBeamStats (calculateBeamPhysics (coarseMesh (- 50)))) = 8 / 125
   \<and> deformationScale (coarseMesh (- 50)) * maxAbsDeflection (coarseMesh (- 50)) = - 8 / 125"
  by (simp add: max_deflection_formula coarseMesh_maxAbs effectiveScale_def coarseMesh_sel)

section \<open>Properties of the segment list\<close>

text \<open>The loop over the indices of \<open>pts\<close> walks the neighbouring pairs of \<open>pts\<close>.\<close>

lemma stepsFrom_Nil: "stepsFrom params R [] = []"
  by (simp add: stepsFrom_def)

lemma stepsFrom_single: "stepsFrom params R [a] = []"
  by (simp add: stepsFrom_def)

lemma stepsFrom_Cons:
  "stepsFrom params R (a # b # rest) =
     (if \<bar>a - b\<bar> < 1 / 100 then []
      else [\<lparr> s_xA = a, s_xB = b, s_poly = getPolynomial a b params R \<rparr>])
     @ stepsFrom params R (b # rest)"
proof -
  have "[0..<length (a # b # rest) - 1] = 0 # map Suc [0..<length (b # rest) - 1]"
    by (simp add: upt_conv_Cons map_Suc_upt del: upt_Suc)
  then show ?thesis
    by (simp add: stepsFrom_def Let_def o_def del: upt_Suc cong: if_cong)
qed

lemma intervals_stepsFrom:
  assumes "sorted_wrt (\<lambda>x y. x + 1 / 100 \<le> y) pts"
  shows "map stepInterval (stepsFrom params R pts) = consecutivePairs pts"
  using assms
proof (induction pts rule: consecutivePairs.induct)
  case (1 a b rest)
  then have "\<not> \<bar>a - b\<bar> < 1 / 100" by auto
  with 1 show ?case by (simp add: stepsFrom_Cons stepInterval_def)
qed (simp_all add: stepsFrom_Nil stepsFrom_single)

lemma fst_consecutivePairs: "iv \<in> set (consecutivePairs pts) \<Longrightarrow> fst iv \<in> set pts"
  by (induction pts rule: consecutivePairs.induct) auto

lemma snd_consecutivePairs: "iv \<in> set (consecutivePairs pts) \<Longrightarrow> snd iv \<in> set pts"
  by (induction pts rule: consecutivePairs.induct) auto

lemma contiguous_consecutivePairs: "contiguous (consecutivePairs pts)"
proof (induction pts rule: consecutivePairs.induct)
  case (1 a b rest)
  then show ?case by (cases rest) simp_all
qed simp_all

lemma ascending_consecutivePairs:
  "sorted_wrt (<) pts \<Longrightarrow> \<forall>iv\<in>set (consecutivePairs pts). fst iv < snd iv"
  by (induction pts rule: consecutivePairs.induct) auto

lemma nonoverlapping_consecutivePairs:
  fixes pts :: "real list"
  shows "sorted pts \<Longrightarrow> sorted_wrt (\<lambda>iv jv. snd iv \<le> fst jv) (consecutivePairs pts)"
proof (induction pts rule: consecutivePairs.induct)
  case (1 a b rest)
  have "b \<le> fst jv" if "jv \<in> set (consecutivePairs (b # rest))" for jv
    using fst_consecutivePairs [OF that] "1.prems" by auto
  with 1 show ?case by simp
qed simp_all

lemma covered_consecutivePairs:
  fixes pts :: "real list"
  assumes "sorted pts" and "2 \<le> length pts"
  shows "coveredSet (consecutivePairs pts) = {hd pts..last pts}"
  using assms
proof (induction pts rule: consecutivePairs.induct)
  case (1 a b rest)
  show ?case
  proof (cases rest)
    case Nil
    then show ?thesis by (simp add: coveredSet_def)
  next
    case (Cons c rest')
    with 1 have IH: "coveredSet (consecutivePairs (b # rest)) = {b..last (b # rest)}"
      by simp
    have ab: "a \<le> b" and bl: "b \<le> last (b # rest)"
      using "1.prems" Cons by auto
    have "coveredSet (consecutivePairs (a # b # rest)) = {a..b} \<union> {b..last (b # rest)}"
      using IH by (simp add: coveredSet_def)
    also have "\<dots> = {a..last (b # rest)}"
      using ab bl by auto
    finally show ?thesis by simp
  qed
qed simp_all

lemma boundaries_consecutivePairs:
  assumes "2 \<le> length pts"
  shows "fst ` set (consecutivePairs pts) \<union> snd ` set (consecutivePairs pts) = set pts"
  using assms
proof (induction pts rule: consecutivePairs.induct)
  case (1 a b rest)
  then show ?case by (cases rest) auto
qed simp_all

subsection \<open>The break points\<close>

lemma breakPoints_sorted: "sorted (breakPoints params)"
  and breakPoints_distinct: "distinct (breakPoints params)"
  and breakPoints_set: "set (breakPoints params) = set (collectedPoints params)"
  by (simp_all add: breakPoints_def)

lemma fold_append_points:
  "fold (\<lambda>l pts. pts @ f l) loads init = init @ concat (map f loads)"
  by (induction loads arbitrary: init) simp_all

lemma collectedPoints_ends:
  "0 \<in> set (collectedPoints params)" "beam_length params \<in> set (collectedPoints params)"
  by (simp_all add: collectedPoints_def fold_append_points)

lemma sorted_hd_least:
  fixes pts :: "real list"
  assumes "sorted pts" "x \<in> set pts"
  shows "hd pts \<le> x"
  using assms by (cases pts) auto

lemma sorted_last_greatest:
  fixes pts :: "real list"
  assumes "sorted pts" "x \<in> set pts"
  shows "x \<le> last pts"
  using assms by (induction pts) (auto split: if_splits)

lemma breakPoints_ends:
  assumes "pointsOnBeam params" and "0 < beam_length params"
  shows "hd (breakPoints params) = 0" and "last (breakPoints params) = beam_length params"
    and "2 \<le> length (breakPoints params)"
proof -
  let ?pts = "breakPoints params"
  have mem: "0 \<in> set ?pts" "beam_length params \<in> set ?pts"
    by (simp_all add: breakPoints_set collectedPoints_ends)
  then have ne: "?pts \<noteq> []" by auto
  have rng: "0 \<le> x \<and> x \<le> beam_length params" if "x \<in> set ?pts" for x
    using that assms(1) by (simp add: pointsOnBeam_def breakPoints_set)
  have "hd ?pts \<le> 0" using mem(1) by (intro sorted_hd_least breakPoints_sorted)
  moreover have "0 \<le> hd ?pts" using rng [of "hd ?pts"] ne by simp
  ultimately show "hd ?pts = 0" by simp
  have "beam_length params \<le> last ?pts"
    using mem(2) by (intro sorted_last_greatest breakPoints_sorted)
  moreover have "last ?pts \<le> beam_length params" using rng [of "last ?pts"] ne by simp
  ultimately show "last ?pts = beam_length params" by simp
  have "card {0, beam_length params} \<le> card (set ?pts)"
    using mem by (intro card_mono) simp_all
  then show "2 \<le> length ?pts"
    using assms(2) by (simp add: distinct_card [OF breakPoints_distinct])
qed

lemma breakPoints_gapped:
  assumes "wellSeparated params"
  shows "sorted_wrt (\<lambda>x y. x + 1 / 100 \<le> y) (breakPoints params)"
proof -
  have strict: "sorted_wrt (<) (breakPoints params)"
    by (simp add: strict_sorted_iff breakPoints_sorted breakPoints_distinct)
  show ?thesis
  proof (rule sorted_wrt_mono_rel [OF _ strict])
    fix x y :: real
    assume "x \<in> set (breakPoints params)" "y \<in> set (breakPoints params)" "x < y"
    then show "x + 1 / 100 \<le> y"
      using assms by (fastforce simp add: wellSeparated_def breakPoints_set)
  qed
qed

text \<open>
  Claim C5, amended.  For every configuration with \<open>L > 0\<close> whose supports and load
  points all lie in \<open>[0, L]\<close> and whose distinct break points are at least 0.01
  apart, the segments of generateDetailedSteps are contiguous (each right end is the
  next left end), do not overlap, ascend, have their boundaries exactly at the beam
  ends, the supports and the load points (without duplicates), and their union is
  exactly \<open>[0, L]\<close>.
\<close>

theorem segments_cover_beam:
  assumes "0 < beam_length params" and "pointsOnBeam params" and "wellSeparated params"
  shows "contiguous (map stepInterval (generateDetailedSteps params R))
       \<and> sorted_wrt (\<lambda>iv jv. snd iv \<le> fst jv) (map stepInterval (generateDetailedSteps params R))
       \<and> (\<forall>iv\<in>set (map stepInterval (generateDetailedSteps params R)). fst iv < snd iv)
       \<and> fst ` set (map stepInterval (generateDetailedSteps params R))
           \<union> snd ` set (map stepInterval (generateDetailedSteps params R))
         = set (collectedPoints params)
       \<and> coveredSet (map stepInterval (generateDetailedSteps params R))
         = {0..beam_length params}"
proof -
  let ?pts = "breakPoints params"
  have ivs: "map stepInterval (generateDetailedSteps params R) = consecutivePairs ?pts"
    unfolding generateDetailedSteps_def
    by (intro intervals_stepsFrom breakPoints_gapped assms)
  have strict: "sorted_wrt (<) ?pts"
    by (simp add: strict_sorted_iff breakPoints_sorted breakPoints_distinct)
  note ends = breakPoints_ends [OF assms(2,1)]
  have "coveredSet (consecutivePairs ?pts) = {0..beam_length params}"
    using covered_consecutivePairs [OF breakPoints_sorted ends(3)] by (simp add: ends)
  moreover have "fst ` set (consecutivePairs ?pts) \<union> snd ` set (consecutivePairs ?pts)
      = set (collectedPoints params)"
    using boundaries_consecutivePairs [OF ends(3)] by (simp add: breakPoints_set)
  ultimately show ?thesis
    unfolding ivs
    using contiguous_consecutivePairs [of ?pts] ascending_consecutivePairs [OF strict]
      nonoverlapping_consecutivePairs [OF breakPoints_sorted]
    by simp
qed


lemma collectedPoints_default: "collectedPoints defaultParams = [0, 8, 4]"
  by (simp add: collectedPoints_def resolveLoads_def defaultLoad_def loadPoints_def
        defaultParams_sel)

lemma collectedPoints_closeLoads: "collectedPoints closeLoads = [0, 8, 5, 1001 / 200]"
  by (simp add: collectedPoints_def resolveLoads_def pointLoadAt_def loadPoints_def
        closeLoads_def defaultParams_sel)

lemma collectedPoints_loadBeyondEnd: "collectedPoints loadBeyondEnd = [0, 8, 10]"
  by (simp add: collectedPoints_def resolveLoads_def defaultLoad_def loadPoints_def
        loadBeyondEnd_def defaultParams_sel)

lemma intervals_default:
  "map stepInterval (generateDetailedSteps defaultParams R) = [(0, 4), (4, 8)]"
  by (simp add: generateDetailedSteps_def breakPoints_def collectedPoints_default
        stepsFrom_Cons stepsFrom_single stepInterval_def)

lemma intervals_closeLoads:
  "map stepInterval (generateDetailedSteps closeLoads R) = [(0, 5), (1001 / 200, 8)]"
  by (simp add: generateDetailedSteps_def breakPoints_def collectedPoints_closeLoads
        stepsFrom_Cons stepsFrom_single stepInterval_def)

lemma intervals_loadBeyondEnd:
  "map stepInterval (generateDetailedSteps loadBeyondEnd R) = [(0, 8), (8, 10)]"
  by (simp add: generateDetailedSteps_def breakPoints_def collectedPoints_loadBeyondEnd
        stepsFrom_Cons stepsFrom_single stepInterval_def)

text \<open>The default beam: the segments are \<open>[0, 4]\<close> and \<open>[4, 8]\<close>.\<close>

theorem segments_cover_beam_witness:
  "pointsOnBeam defaultParams \<and> wellSeparated defaultParams
   \<and> map stepInterval (generateDetailedSteps defaultParams (solveReactions defaultParams))
        = [(0, 4), (4, 8)]
   \<and> contiguous (map stepInterval
        (generateDetailedSteps defaultParams (solveReactions defaultParams)))
   \<and> coveredSet (map stepInterval
        (generateDetailedSteps defaultParams (solveReactions defaultParams))) = {0..8}"
proof -
  have h: "0 < beam_length defaultParams" "pointsOnBeam defaultParams"
      "wellSeparated defaultParams"
    by (simp_all add: pointsOnBeam_def wellSeparated_def collectedPoints_default
          defaultParams_sel)
  show ?thesis
    using h segments_cover_beam [OF h, of "solveReactions defaultParams"]
    by (simp add: intervals_default defaultParams_sel)
qed

text \<open>
  As stated for every configuration with \<open>L > 0\<close> the claim fails: the loop drops a
  segment shorter than 0.01, so loads at 5 and 5.005 leave the gap between them
  uncovered; and a load point beyond the beam end (the unclamped base load at 10 on
  the beam of length 8) adds a segment outside \<open>[0, L]\<close>.
\<close>

theorem segments_cover_beam_counterexample:
  "0 < beam_length closeLoads
   \<and> map stepInterval (generateDetailedSteps closeLoads (solveReactions closeLoads))
        = [(0, 5), (1001 / 200, 8)]
   \<and> \<not> contiguous (map stepInterval
          (generateDetailedSteps closeLoads (solveReactions closeLoads)))
   \<and> 0 < beam_length loadBeyondEnd
   \<and> map stepInterval (generateDetailedSteps loadBeyondEnd (solveReactions loadBeyondEnd))
        = [(0, 8), (8, 10)]
   \<and> coveredSet (map stepInterval
        (generateDetailedSteps loadBeyondEnd (solveReactions loadBeyondEnd)))
       \<noteq> {0..beam_length loadBeyondEnd}"
proof -
  have "(9::real) \<in> coveredSet [(0, 8), (8, 10)]" by (simp add: coveredSet_def)
  moreover have "(9::real) \<notin> {0..8}" by simp
  ultimately have "coveredSet [(0, 8), (8, 10)] \<noteq> {0..8::real}" by metis
  moreover have "beam_length closeLoads = 8" "beam_length loadBeyondEnd = 8"
    by (simp_all add: closeLoads_def loadBeyondEnd_def defaultParams_sel)
  ultimately show ?thesis
    by (simp add: intervals_closeLoads intervals_loadBeyondEnd)
qed

section \<open>Continuity of the piecewise polynomials\<close>

text \<open>The coefficients are sums of the contributions of the reactions and of each load.\<close>

lemma evalV_polyLoad:
  "evalV (polyLoad xA xB l c) x = evalV c x + evalV (polyLoad xA xB l zeroPoly) x"
  by (cases "l_type l"; cases "l_x l"; cases "l_x1 l"; cases "l_x2 l")
     (simp_all add: polyLoad_def evalV_def zeroPoly_def Let_def algebra_simps)

lemma evalM_polyLoad:
  "evalM (polyLoad xA xB l c) x = evalM c x + evalM (polyLoad xA xB l zeroPoly) x"
  by (cases "l_type l"; cases "l_x l"; cases "l_x1 l"; cases "l_x2 l")
     (simp_all add: polyLoad_def evalM_def zeroPoly_def Let_def algebra_simps)

lemma evalV_fold_polyLoad:
  "evalV (fold (polyLoad xA xB) loads c) x =
     evalV c x + (\<Sum>l\<leftarrow>loads. evalV (polyLoad xA xB l zeroPoly) x)"
proof (induction loads arbitrary: c)
  case Nil
  show ?case by simp
next
  case (Cons l loads)
  show ?case
    by (simp add: Cons.IH evalV_polyLoad [of xA xB l c] add.assoc)
qed

lemma evalM_fold_polyLoad:
  "evalM (fold (polyLoad xA xB) loads c) x =
     evalM c x + (\<Sum>l\<leftarrow>loads. evalM (polyLoad xA xB l zeroPoly) x)"
proof (induction loads arbitrary: c)
  case Nil
  show ?case by simp
next
  case (Cons l loads)
  show ?case
    by (simp add: Cons.IH evalM_polyLoad [of xA xB l c] add.assoc)
qed


lemma polyLoad_P:
  assumes "l_type l = load_P"
  shows "polyLoad xA xB l c =
     (case l_x l of None \<Rightarrow> c
      | Some p \<Rightarrow> if p \<le> xA
          then c\<lparr> c_v0 := c_v0 c - l_val l, c_m1 := c_m1 c - l_val l,
                 c_m0 := c_m0 c + l_val l * p \<rparr>
          else c)"
  using assms by (cases "l_x l") (simp_all add: polyLoad_def)

lemma polyLoad_M:
  assumes "l_type l = load_M"
  shows "polyLoad xA xB l c =
     (case l_x l of None \<Rightarrow> c
      | Some p \<Rightarrow> if p \<le> xA then c\<lparr> c_m0 := c_m0 c - l_val l \<rparr> else c)"
  using assms by (cases "l_x l") (simp_all add: polyLoad_def)

lemma polyLoad_no_range:
  assumes "l_type l = load_U \<or> l_type l = load_T" and "l_x1 l = None \<or> l_x2 l = None"
  shows "polyLoad xA xB l c = c"
  using assms by (auto simp add: polyLoad_def)

lemma polyLoad_U:
  assumes "l_type l = load_U" and "l_x1 l = Some x1" and "l_x2 l = Some x2"
  shows "polyLoad xA xB l c =
     (if x2 \<le> xA
      then c\<lparr> c_v0 := c_v0 c - l_val l * (x2 - x1), c_m1 := c_m1 c - l_val l * (x2 - x1),
             c_m0 := c_m0 c + l_val l * (x2 - x1) * ((x1 + x2) / 2) \<rparr>
      else if x1 \<le> xA \<and> x2 \<ge> xB
      then c\<lparr> c_v1 := c_v1 c - l_val l,
             c_v0 := c_v0 c + l_val l * x1,
             c_m2 := c_m2 c - (1 / 2) * l_val l,
             c_m1 := c_m1 c + l_val l * x1,
             c_m0 := c_m0 c - (1 / 2) * l_val l * x1 * x1 \<rparr>
      else c)"
  using assms by (simp add: polyLoad_def Let_def)

lemma polyLoad_T:
  assumes "l_type l = load_T" and "l_x1 l = Some x1" and "l_x2 l = Some x2"
  shows "polyLoad xA xB l c =
     (if x2 \<le> xA
      then (let F = (1 / 2) * l_val l * (x2 - x1);
                cent = x2 - (if l_peak l = Some peak_right then (x2 - x1) / 3
                             else 2 * (x2 - x1) / 3)
            in c\<lparr> c_v0 := c_v0 c - F, c_m1 := c_m1 c - F, c_m0 := c_m0 c + F * cent \<rparr>)
      else if x1 \<le> xA \<and> x2 \<ge> xB
      then (let w = l_val l; k = w / (6 * (x2 - x1)); kv = w / (2 * (x2 - x1))
            in if l_peak l = Some peak_right
               then c\<lparr> c_m3 := c_m3 c - k,
                      c_m2 := c_m2 c + 3 * k * x1,
                      c_m1 := c_m1 c - 3 * k * x1 * x1,
                      c_m0 := c_m0 c + k * x1 * x1 * x1,
                      c_v2 := c_v2 c - kv,
                      c_v1 := c_v1 c + 2 * kv * x1,
                      c_v0 := c_v0 c - kv * x1 * x1 \<rparr>
               else c\<lparr> c_m2 := c_m2 c - (1 / 2) * w - 3 * k * x1,
                      c_m1 := c_m1 c + w * x1 + 3 * k * x1 * x1,
                      c_m0 := c_m0 c - (1 / 2) * w * x1 * x1 - k * x1 * x1 * x1,
                      c_v1 := c_v1 c - w - 2 * kv * x1,
                      c_v0 := c_v0 c + w * x1 + kv * x1 * x1,
                      c_m3 := c_m3 c + k,
                      c_v2 := c_v2 c + kv \<rparr>)
      else c)"
  using assms by (simp add: polyLoad_def Let_def)

text \<open>The contribution of one load to \<open>V\<close> and \<open>M\<close> on the segment \<open>[xA, xB]\<close>, by load type.\<close>

lemma contribution_P:
  assumes "l_type l = load_P"
  shows "evalV (polyLoad xA xB l zeroPoly) x
           = (case l_x l of None \<Rightarrow> 0 | Some p \<Rightarrow> if p \<le> xA then - l_val l else 0)"
    and "evalM (polyLoad xA xB l zeroPoly) x
           = (case l_x l of None \<Rightarrow> 0 | Some p \<Rightarrow> if p \<le> xA then - l_val l * (x - p) else 0)"
  by (simp_all add: polyLoad_P [OF assms] evalV_def evalM_def zeroPoly_def algebra_simps
        split: option.splits)

lemma contribution_M:
  assumes "l_type l = load_M"
  shows "evalV (polyLoad xA xB l zeroPoly) x = 0"
    and "evalM (polyLoad xA xB l zeroPoly) x
           = (case l_x l of None \<Rightarrow> 0 | Some p \<Rightarrow> if p \<le> xA then - l_val l else 0)"
  by (simp_all add: polyLoad_M [OF assms] evalV_def evalM_def zeroPoly_def
        split: option.splits)

lemma contribution_U:
  assumes "l_type l = load_U" and "l_x1 l = Some x1" and "l_x2 l = Some x2"
  shows "evalV (polyLoad xA xB l zeroPoly) x
           = (if x2 \<le> xA then - (l_val l * (x2 - x1))
              else if x1 \<le> xA \<and> xB \<le> x2 then - (l_val l * (x - x1)) else 0)"
    and "evalM (polyLoad xA xB l zeroPoly) x
           = (if x2 \<le> xA then - (l_val l * (x2 - x1)) * (x - (x1 + x2) / 2)
              else if x1 \<le> xA \<and> xB \<le> x2 then - (l_val l * (x - x1) ^ 2 / 2) else 0)"
  by (simp_all add: polyLoad_U [OF assms] evalV_def evalM_def zeroPoly_def
        power2_eq_square field_simps)

text \<open>
  A triangular load of peak \<open>w\<close> on \<open>[x1, x2]\<close>: left of the segment it is its
  resultant at its centroid; across the segment it is the integral of the ramp,
  with \<open>kv = w / (2 (x2 - x1))\<close> and \<open>k = w / (6 (x2 - x1))\<close>.
\<close>

lemma contribution_T_left:
  assumes "l_type l = load_T" and "l_x1 l = Some x1" and "l_x2 l = Some x2" and "x2 \<le> xA"
  shows "evalV (polyLoad xA xB l zeroPoly) x = - (l_val l * (x2 - x1) / 2)"
    and "evalM (polyLoad xA xB l zeroPoly) x
           = - (l_val l * (x2 - x1) / 2)
               * (x - (x2 - (if l_peak l = Some peak_right then (x2 - x1) / 3
                             else 2 * (x2 - x1) / 3)))"
  using assms(4)
  by (simp_all add: polyLoad_T [OF assms(1-3)] evalV_def evalM_def zeroPoly_def Let_def
        field_simps)

lemma contribution_T_none:
  assumes "l_type l = load_T" and "l_x1 l = Some x1" and "l_x2 l = Some x2"
    and "\<not> x2 \<le> xA" and "\<not> (x1 \<le> xA \<and> xB \<le> x2)"
  shows "evalV (polyLoad xA xB l zeroPoly) x = 0"
    and "evalM (polyLoad xA xB l zeroPoly) x = 0"
  using assms(4,5)
  by (auto simp add: polyLoad_T [OF assms(1-3)] evalV_def evalM_def zeroPoly_def)

lemma ramp_right:
  fixes k kv x x1 :: real
  shows "- kv * x ^ 2 + 2 * kv * x1 * x + - kv * x1 * x1 = - kv * (x - x1) ^ 2"
    and "- k * x ^ 3 + 3 * k * x1 * x ^ 2 + - 3 * k * x1 * x1 * x + k * x1 * x1 * x1
           = - k * (x - x1) ^ 3"
  by (simp_all add: power2_eq_square power3_eq_cube algebra_simps)

lemma contribution_T_across:
  assumes "l_type l = load_T" and "l_x1 l = Some x1" and "l_x2 l = Some x2"
    and "\<not> x2 \<le> xA" and "x1 \<le> xA" and "xB \<le> x2"
  shows "evalV (polyLoad xA xB l zeroPoly) x
           = (if l_peak l = Some peak_right
              then - (l_val l / (2 * (x2 - x1))) * (x - x1) ^ 2
              else - l_val l * (x - x1) + (l_val l / (2 * (x2 - x1))) * (x - x1) ^ 2)"
    and "evalM (polyLoad xA xB l zeroPoly) x
           = (if l_peak l = Some peak_right
              then - (l_val l / (6 * (x2 - x1))) * (x - x1) ^ 3
              else - (l_val l / 2) * (x - x1) ^ 2 + (l_val l / (6 * (x2 - x1))) * (x - x1) ^ 3)"
proof -
  define k where "k = l_val l / (6 * (x2 - x1))"
  define kv where "kv = l_val l / (2 * (x2 - x1))"
  have p: "polyLoad xA xB l zeroPoly =
      (if l_peak l = Some peak_right
       then \<lparr> c_m3 = - k, c_m2 = 3 * k * x1, c_m1 = - 3 * k * x1 * x1, c_m0 = k * x1 * x1 * x1,
              c_v2 = - kv, c_v1 = 2 * kv * x1, c_v0 = - kv * x1 * x1 \<rparr>
       else \<lparr> c_m3 = k, c_m2 = - (1 / 2) * l_val l - 3 * k * x1,
              c_m1 = l_val l * x1 + 3 * k * x1 * x1,
              c_m0 = - (1 / 2) * l_val l * x1 * x1 - k * x1 * x1 * x1,
              c_v2 = kv, c_v1 = - l_val l - 2 * kv * x1,
              c_v0 = l_val l * x1 + kv * x1 * x1 \<rparr>)"
    using assms(4-6)
    by (simp add: polyLoad_T [OF assms(1-3)] zeroPoly_def Let_def k_def kv_def)
  show "evalV (polyLoad xA xB l zeroPoly) x
           = (if l_peak l = Some peak_right
              then - (l_val l / (2 * (x2 - x1))) * (x - x1) ^ 2
              else - l_val l * (x - x1) + (l_val l / (2 * (x2 - x1))) * (x - x1) ^ 2)"
    unfolding p kv_def [symmetric]
    by (simp add: evalV_def power2_eq_square algebra_simps)
  show "evalM (polyLoad xA xB l zeroPoly) x
           = (if l_peak l = Some peak_right
              then - (l_val l / (6 * (x2 - x1))) * (x - x1) ^ 3
              else - (l_val l / 2) * (x - x1) ^ 2 + (l_val l / (6 * (x2 - x1))) * (x - x1) ^ 3)"
    unfolding p k_def [symmetric]
    by (simp add: evalM_def power2_eq_square power3_eq_cube algebra_simps)
qed


text \<open>
  Where a distributed load on \<open>[x1, x2]\<close> can lie relative to two neighbouring
  segments \<open>[a, b]\<close> and \<open>[b, c]\<close> when neither end is strictly inside a segment.
\<close>

lemma range_cases:
  assumes "a < b" "b < c" "avoidsInteriors a b c x1" "avoidsInteriors a b c x2" "x1 \<le> x2"
  obtains (left) "x2 \<le> a"
    | (ends_at) "x1 \<le> a" "x2 = b"
    | (point) "x1 = b" "x2 = b"
    | (across) "x1 \<le> a" "c \<le> x2"
    | (starts_at) "x1 = b" "c \<le> x2"
    | (right) "c \<le> x1" "c \<le> x2"
  using assms unfolding avoidsInteriors_def by linarith

lemma jump_P:
  assumes "a < b" "b < c" "l_type l = load_P"
    and "\<forall>x\<in>set (loadPoints l). avoidsInteriors a b c x"
  shows "evalV (polyLoad b c l zeroPoly) b - evalV (polyLoad a b l zeroPoly) b
           = (if l_x l = Some b then - l_val l else 0)"
    and "evalM (polyLoad b c l zeroPoly) b - evalM (polyLoad a b l zeroPoly) b = 0"
  using assms(1,2,4)
  by (auto simp add: contribution_P [OF assms(3)] loadPoints_def assms(3) avoidsInteriors_def
        split: option.splits)

lemma jump_M:
  assumes "a < b" "b < c" "l_type l = load_M"
    and "\<forall>x\<in>set (loadPoints l). avoidsInteriors a b c x"
  shows "evalV (polyLoad b c l zeroPoly) b - evalV (polyLoad a b l zeroPoly) b = 0"
    and "evalM (polyLoad b c l zeroPoly) b - evalM (polyLoad a b l zeroPoly) b
           = (if l_x l = Some b then - l_val l else 0)"
  using assms(1,2,4)
  by (auto simp add: contribution_M [OF assms(3)] loadPoints_def assms(3) avoidsInteriors_def
        split: option.splits)

lemma jump_U:
  assumes "a < b" "b < c" and t: "l_type l = load_U"
    and x1: "l_x1 l = Some x1" and x2: "l_x2 l = Some x2"
    and "avoidsInteriors a b c x1" "avoidsInteriors a b c x2" "x1 \<le> x2"
  shows "evalV (polyLoad b c l zeroPoly) b - evalV (polyLoad a b l zeroPoly) b = 0"
    and "evalM (polyLoad b c l zeroPoly) b - evalM (polyLoad a b l zeroPoly) b = 0"
proof -
  note cU = contribution_U [OF t x1 x2]
  have "evalV (polyLoad b c l zeroPoly) b - evalV (polyLoad a b l zeroPoly) b = 0
      \<and> evalM (polyLoad b c l zeroPoly) b - evalM (polyLoad a b l zeroPoly) b = 0"
    using assms(1,2,6,7,8)
  proof (cases rule: range_cases)
    case left
    then show ?thesis using assms(1,2) by (simp add: cU)
  next
    case ends_at
    then show ?thesis using assms(1,2) by (simp add: cU power2_eq_square field_simps)
  next
    case point
    then show ?thesis using assms(1,2) by (simp add: cU)
  next
    case across
    then show ?thesis using assms(1,2) by (simp add: cU)
  next
    case starts_at
    then show ?thesis using assms(1,2) by (simp add: cU)
  next
    case right
    then show ?thesis using assms(1,2) by (simp add: cU)
  qed
  then show "evalV (polyLoad b c l zeroPoly) b - evalV (polyLoad a b l zeroPoly) b = 0"
    and "evalM (polyLoad b c l zeroPoly) b - evalM (polyLoad a b l zeroPoly) b = 0"
    by simp_all
qed

lemma jump_T:
  assumes "a < b" "b < c" and t: "l_type l = load_T"
    and x1: "l_x1 l = Some x1" and x2: "l_x2 l = Some x2"
    and "avoidsInteriors a b c x1" "avoidsInteriors a b c x2" "x1 \<le> x2"
  shows "evalV (polyLoad b c l zeroPoly) b - evalV (polyLoad a b l zeroPoly) b = 0"
    and "evalM (polyLoad b c l zeroPoly) b - evalM (polyLoad a b l zeroPoly) b = 0"
proof -
  note left = contribution_T_left [OF t x1 x2]
    and none = contribution_T_none [OF t x1 x2]
    and across = contribution_T_across [OF t x1 x2]
  have "evalV (polyLoad b c l zeroPoly) b - evalV (polyLoad a b l zeroPoly) b = 0
      \<and> evalM (polyLoad b c l zeroPoly) b - evalM (polyLoad a b l zeroPoly) b = 0"
    using assms(1,2,6,7,8)
  proof (cases rule: range_cases)
    case left
    then have "x2 \<le> a" "x2 \<le> b" using assms(1) by simp_all
    then show ?thesis by (simp add: contribution_T_left [OF t x1 x2])
  next
    case ends_at
    then have d: "b - x1 \<noteq> 0" using assms(1) by simp
    have l: "\<not> x2 \<le> a" "x1 \<le> a" "b \<le> x2" and r: "x2 \<le> b"
      using ends_at assms(1) by simp_all
    show ?thesis
      using d unfolding contribution_T_across [OF t x1 x2 l] contribution_T_left [OF t x1 x2 r]
      by (simp add: ends_at power2_eq_square power3_eq_cube field_simps)
  next
    case point
    then have l: "\<not> x2 \<le> a" "\<not> (x1 \<le> a \<and> b \<le> x2)" and r: "x2 \<le> b"
      using assms(1) by simp_all
    show ?thesis
      unfolding contribution_T_none [OF t x1 x2 l] contribution_T_left [OF t x1 x2 r]
      by (simp add: point)
  next
    case across
    then have l: "\<not> x2 \<le> a" "x1 \<le> a" "b \<le> x2" and r: "\<not> x2 \<le> b" "x1 \<le> b" "c \<le> x2"
      using assms(1,2) by simp_all
    show ?thesis
      unfolding contribution_T_across [OF t x1 x2 l] contribution_T_across [OF t x1 x2 r]
      by simp
  next
    case starts_at
    then have l: "\<not> x2 \<le> a" "\<not> (x1 \<le> a \<and> b \<le> x2)"
      and r: "\<not> x2 \<le> b" "x1 \<le> b" "c \<le> x2"
      using assms(1,2) by simp_all
    show ?thesis
      unfolding contribution_T_none [OF t x1 x2 l] contribution_T_across [OF t x1 x2 r]
      by (simp add: starts_at)
  next
    case right
    then have l: "\<not> x2 \<le> a" "\<not> (x1 \<le> a \<and> b \<le> x2)"
      and r: "\<not> x2 \<le> b" "\<not> (x1 \<le> b \<and> c \<le> x2)"
      using assms(1,2) by simp_all
    show ?thesis
      unfolding contribution_T_none [OF t x1 x2 l] contribution_T_none [OF t x1 x2 r]
      by simp
  qed
  then show "evalV (polyLoad b c l zeroPoly) b - evalV (polyLoad a b l zeroPoly) b = 0"
    and "evalM (polyLoad b c l zeroPoly) b - evalM (polyLoad a b l zeroPoly) b = 0"
    by simp_all
qed

lemma jump_load:
  assumes "a < b" "b < c"
    and av: "\<forall>x\<in>set (loadPoints l). avoidsInteriors a b c x"
    and ord: "(l_type l = load_U \<or> l_type l = load_T) \<and> l_x1 l \<noteq> None \<and> l_x2 l \<noteq> None
              \<longrightarrow> the (l_x1 l) \<le> the (l_x2 l)"
  shows "evalV (polyLoad b c l zeroPoly) b - evalV (polyLoad a b l zeroPoly) b
           = (if l_type l = load_P \<and> l_x l = Some b then - l_val l else 0)"
    and "evalM (polyLoad b c l zeroPoly) b - evalM (polyLoad a b l zeroPoly) b
           = (if l_type l = load_M \<and> l_x l = Some b then - l_val l else 0)"
proof -
  have "evalV (polyLoad b c l zeroPoly) b - evalV (polyLoad a b l zeroPoly) b
           = (if l_type l = load_P \<and> l_x l = Some b then - l_val l else 0)
      \<and> evalM (polyLoad b c l zeroPoly) b - evalM (polyLoad a b l zeroPoly) b
           = (if l_type l = load_M \<and> l_x l = Some b then - l_val l else 0)"
  proof (cases "l_type l")
    case load_P
    then show ?thesis using jump_P [OF assms(1,2) load_P av] by simp
  next
    case load_M
    then show ?thesis using jump_M [OF assms(1,2) load_M av] by simp
  next
    case load_U
    show ?thesis
    proof (cases "l_x1 l = None \<or> l_x2 l = None")
      case True
      then show ?thesis using load_U by (simp add: polyLoad_no_range)
    next
      case False
      then obtain x1 x2 where x: "l_x1 l = Some x1" "l_x2 l = Some x2" by auto
      then have "avoidsInteriors a b c x1" "avoidsInteriors a b c x2" "x1 \<le> x2"
        using av ord load_U by (simp_all add: loadPoints_def)
      then show ?thesis using jump_U [OF assms(1,2) load_U x] load_U by simp
    qed
  next
    case load_T
    show ?thesis
    proof (cases "l_x1 l = None \<or> l_x2 l = None")
      case True
      then show ?thesis using load_T by (simp add: polyLoad_no_range)
    next
      case False
      then obtain x1 x2 where x: "l_x1 l = Some x1" "l_x2 l = Some x2" by auto
      then have "avoidsInteriors a b c x1" "avoidsInteriors a b c x2" "x1 \<le> x2"
        using av ord load_T by (simp_all add: loadPoints_def)
      then show ?thesis using jump_T [OF assms(1,2) load_T x] load_T by simp
    qed
  qed
  then show "evalV (polyLoad b c l zeroPoly) b - evalV (polyLoad a b l zeroPoly) b
           = (if l_type l = load_P \<and> l_x l = Some b then - l_val l else 0)"
    and "evalM (polyLoad b c l zeroPoly) b - evalM (polyLoad a b l zeroPoly) b
           = (if l_type l = load_M \<and> l_x l = Some b then - l_val l else 0)"
    by simp_all
qed

lemma sum_list_diff:
  fixes f g :: "'a \<Rightarrow> real"
  shows "(\<Sum>l\<leftarrow>loads. f l) - (\<Sum>l\<leftarrow>loads. g l) = (\<Sum>l\<leftarrow>loads. f l - g l)"
  by (induction loads) simp_all

lemma sum_pointLoadsAt:
  "(\<Sum>l\<leftarrow>loads. if l_type l = load_P \<and> l_x l = Some b then - l_val l else 0)
     = - pointLoadsAt b loads"
  by (induction loads) (simp_all add: pointLoadsAt_def)

lemma sum_appliedMomentsAt:
  "(\<Sum>l\<leftarrow>loads. if l_type l = load_M \<and> l_x l = Some b then - l_val l else 0)
     = - appliedMomentsAt b loads"
  by (induction loads) (simp_all add: appliedMomentsAt_def)

lemma eval_addForce:
  "evalV (addForce F pos c) x = evalV c x + F"
  "evalM (addForce F pos c) x = evalM c x + F * (x - pos)"
  by (simp_all add: addForce_def evalV_def evalM_def algebra_simps)

lemma eval_zeroPoly: "evalV zeroPoly x = 0" "evalM zeroPoly x = 0"
  by (simp_all add: zeroPoly_def evalV_def evalM_def)

lemma reaction_contribution:
  assumes "beamType params \<noteq> cantilever"
  shows "evalV (polyReactions xA params R) x
           = (if fst (supportPositions params) \<le> xA then r_Ra R else 0)
             + (if snd (supportPositions params) \<le> xA then r_Rb R else 0)"
    and "evalM (polyReactions xA params R) x
           = (if fst (supportPositions params) \<le> xA
              then r_Ra R * (x - fst (supportPositions params)) else 0)
             + (if snd (supportPositions params) \<le> xA
                then r_Rb R * (x - snd (supportPositions params)) else 0)"
  using assms
  by (cases "beamType params";
      simp add: polyReactions_def supportPositions_def Let_def eval_addForce eval_zeroPoly)+

lemma reaction_contribution_cantilever:
  assumes "beamType params = cantilever"
  shows "polyReactions xA params R = polyReactions xA' params R"
  using assms by (simp add: polyReactions_def Let_def)

lemma step_jump:
  fixes F :: real
  assumes "a < b" "b < c" "avoidsInteriors a b c p"
  shows "(if p \<le> b then F else 0) - (if p \<le> a then F else 0) = (if p = b then F else 0)"
    and "(if p \<le> b then F * (b - p) else 0) - (if p \<le> a then F * (b - p) else 0) = 0"
  using assms by (auto simp add: avoidsInteriors_def)

lemma jump_reactions:
  assumes "a < b" "b < c"
    and "beamType params \<noteq> cantilever \<longrightarrow>
           avoidsInteriors a b c (fst (supportPositions params))
           \<and> avoidsInteriors a b c (snd (supportPositions params))"
  shows "evalV (polyReactions b params R) b - evalV (polyReactions a params R) b
           = supportReactionsAt b params R"
    and "evalM (polyReactions b params R) b - evalM (polyReactions a params R) b = 0"
proof -
  have "evalV (polyReactions b params R) b - evalV (polyReactions a params R) b
           = supportReactionsAt b params R
      \<and> evalM (polyReactions b params R) b - evalM (polyReactions a params R) b = 0"
  proof (cases "beamType params = cantilever")
    case True
    then show ?thesis
      by (simp add: reaction_contribution_cantilever [OF True, of b _ a] supportReactionsAt_def)
  next
    case False
    with assms(3) have av: "avoidsInteriors a b c (fst (supportPositions params))"
      "avoidsInteriors a b c (snd (supportPositions params))" by simp_all
    have "evalV (polyReactions b params R) b - evalV (polyReactions a params R) b
        = ((if fst (supportPositions params) \<le> b then r_Ra R else 0)
            - (if fst (supportPositions params) \<le> a then r_Ra R else 0))
          + ((if snd (supportPositions params) \<le> b then r_Rb R else 0)
            - (if snd (supportPositions params) \<le> a then r_Rb R else 0))"
      by (simp add: reaction_contribution(1) [OF False])
    also have "\<dots> = supportReactionsAt b params R"
      using False
      by (simp add: step_jump(1) [OF assms(1,2) av(1)] step_jump(1) [OF assms(1,2) av(2)]
            supportReactionsAt_def)
    finally have V: "evalV (polyReactions b params R) b - evalV (polyReactions a params R) b
        = supportReactionsAt b params R" .
    have "evalM (polyReactions b params R) b - evalM (polyReactions a params R) b
        = ((if fst (supportPositions params) \<le> b
            then r_Ra R * (b - fst (supportPositions params)) else 0)
            - (if fst (supportPositions params) \<le> a
               then r_Ra R * (b - fst (supportPositions params)) else 0))
          + ((if snd (supportPositions params) \<le> b
              then r_Rb R * (b - snd (supportPositions params)) else 0)
            - (if snd (supportPositions params) \<le> a
               then r_Rb R * (b - snd (supportPositions params)) else 0))"
      by (simp add: reaction_contribution(2) [OF False])
    also have "\<dots> = 0"
      by (simp add: step_jump(2) [OF assms(1,2) av(1)] step_jump(2) [OF assms(1,2) av(2)])
    finally show ?thesis using V by simp
  qed
  then show "evalV (polyReactions b params R) b - evalV (polyReactions a params R) b
           = supportReactionsAt b params R"
    and "evalM (polyReactions b params R) b - evalM (polyReactions a params R) b = 0"
    by simp_all
qed


lemma collectedPoints_set:
  "set (collectedPoints params) =
     {0, beam_length params}
     \<union> (if beamType params = overhanging then {supportA params, supportB params} else {})
     \<union> (\<Union>l\<in>set (resolveLoads params). set (loadPoints l))"
  by (auto simp add: collectedPoints_def fold_append_points)

lemma supports_collected:
  assumes "beamType params \<noteq> cantilever"
  shows "fst (supportPositions params) \<in> set (collectedPoints params)"
    and "snd (supportPositions params) \<in> set (collectedPoints params)"
  using assms
  by (cases "beamType params"; simp add: supportPositions_def collectedPoints_set)+

lemma stepsFrom_member:
  assumes "s \<in> set (stepsFrom params R pts)"
  obtains i where "Suc i < length pts"
    and "s = \<lparr> s_xA = pts ! i, s_xB = pts ! Suc i,
               s_poly = getPolynomial (pts ! i) (pts ! Suc i) params R \<rparr>"
proof -
  from assms obtain i where "i < length pts - 1"
    and "s = \<lparr> s_xA = pts ! i, s_xB = pts ! Suc i,
               s_poly = getPolynomial (pts ! i) (pts ! Suc i) params R \<rparr>"
    by (auto simp add: stepsFrom_def Let_def split: if_splits)
  moreover from this have "Suc i < length pts" by linarith
  ultimately show thesis using that by blast
qed

lemma neighbours_ascend:
  fixes pts :: "real list"
  assumes "sorted pts" "distinct pts" "Suc (Suc i) < length pts"
  shows "pts ! i < pts ! Suc i" "pts ! Suc i < pts ! Suc (Suc i)"
proof -
  have strict: "sorted_wrt (<) pts" using assms(1,2) by (simp add: strict_sorted_iff)
  show "pts ! i < pts ! Suc i" "pts ! Suc i < pts ! Suc (Suc i)"
    using assms(3) by (auto intro!: sorted_wrt_nth_less [OF strict])
qed

lemma neighbours_avoid:
  fixes pts :: "real list"
  assumes "sorted pts" "distinct pts" "Suc (Suc i) < length pts" "x \<in> set pts"
  shows "avoidsInteriors (pts ! i) (pts ! Suc i) (pts ! Suc (Suc i)) x"
proof -
  obtain k where k: "k < length pts" "x = pts ! k"
    using assms(4) by (auto simp add: in_set_conv_nth)
  consider "k \<le> i" | "k = Suc i" | "Suc (Suc i) \<le> k" by linarith
  then show "avoidsInteriors (pts ! i) (pts ! Suc i) (pts ! Suc (Suc i)) x"
  proof cases
    case 1
    then have "pts ! k \<le> pts ! i" using assms(1,3) by (intro sorted_nth_mono) simp_all
    then show ?thesis by (simp add: avoidsInteriors_def k)
  next
    case 2
    then show ?thesis by (simp add: avoidsInteriors_def k)
  next
    case 3
    then have "pts ! Suc (Suc i) \<le> pts ! k" using assms(1) k(1) by (intro sorted_nth_mono) simp_all
    then show ?thesis by (simp add: avoidsInteriors_def k)
  qed
qed

text \<open>
  Claim C4, amended.  Let every distributed load have \<open>x1 \<le> x2\<close>.  Across the
  boundary \<open>b\<close> between two adjacent segments, the \<open>M\<close> polynomial of the right
  segment minus that of the left one, both evaluated at \<open>b\<close>, is minus the sum of the
  applied moments acting at \<open>b\<close> (so \<open>M\<close> is continuous where no moment acts, and
  drops by exactly the moment's value where one does); and the \<open>V\<close> polynomials
  differ at \<open>b\<close> by the support reactions acting at \<open>b\<close> minus the sum of the point
  loads acting at \<open>b\<close> (so \<open>V\<close> is continuous except at point loads and supports).
\<close>

theorem polynomial_jumps_at_boundary:
  assumes "rangeLoadsOrdered params"
    and "s \<in> set (generateDetailedSteps params R)"
    and "t \<in> set (generateDetailedSteps params R)"
    and "s_xB s = s_xA t"
  shows "evalM (s_poly t) (s_xA t) - evalM (s_poly s) (s_xB s)
           = - appliedMomentsAt (s_xA t) (resolveLoads params)
       \<and> evalV (s_poly t) (s_xA t) - evalV (s_poly s) (s_xB s)
           = supportReactionsAt (s_xA t) params R - pointLoadsAt (s_xA t) (resolveLoads params)"
proof -
  let ?pts = "breakPoints params"
  let ?loads = "resolveLoads params"
  obtain i where i: "Suc i < length ?pts"
    and s: "s = \<lparr> s_xA = ?pts ! i, s_xB = ?pts ! Suc i,
                  s_poly = getPolynomial (?pts ! i) (?pts ! Suc i) params R \<rparr>"
    using assms(2) unfolding generateDetailedSteps_def by (rule stepsFrom_member)
  obtain j where j: "Suc j < length ?pts"
    and t: "t = \<lparr> s_xA = ?pts ! j, s_xB = ?pts ! Suc j,
                  s_poly = getPolynomial (?pts ! j) (?pts ! Suc j) params R \<rparr>"
    using assms(3) unfolding generateDetailedSteps_def by (rule stepsFrom_member)
  have "?pts ! Suc i = ?pts ! j" using assms(4) by (simp add: s t)
  then have ji: "j = Suc i"
    using i j breakPoints_distinct [of params] by (simp add: nth_eq_iff_index_eq)
  define a where "a = ?pts ! i"
  define b where "b = ?pts ! Suc i"
  define c where "c = ?pts ! Suc (Suc i)"
  have len: "Suc (Suc i) < length ?pts" using j ji by simp
  have ab: "a < b" and bc: "b < c"
    using neighbours_ascend [OF breakPoints_sorted breakPoints_distinct len]
    by (simp_all add: a_def b_def c_def)
  have avoid: "avoidsInteriors a b c x" if "x \<in> set (collectedPoints params)" for x
    using neighbours_avoid [OF breakPoints_sorted breakPoints_distinct len, of x] that
    by (simp add: a_def b_def c_def breakPoints_set)
  have sp: "s_poly s = getPolynomial a b params R" "s_poly t = getPolynomial b c params R"
    and xb: "s_xB s = b" "s_xA t = b"
    by (simp_all add: s t ji a_def b_def c_def)
  have load_avoid: "\<forall>x\<in>set (loadPoints l). avoidsInteriors a b c x" if "l \<in> set ?loads" for l
    using that by (auto intro!: avoid simp add: collectedPoints_set)
  have load_ord: "(l_type l = load_U \<or> l_type l = load_T) \<and> l_x1 l \<noteq> None \<and> l_x2 l \<noteq> None
              \<longrightarrow> the (l_x1 l) \<le> the (l_x2 l)" if "l \<in> set ?loads" for l
    using that assms(1) by (simp add: rangeLoadsOrdered_def)
  have sup: "beamType params \<noteq> cantilever \<longrightarrow>
           avoidsInteriors a b c (fst (supportPositions params))
           \<and> avoidsInteriors a b c (snd (supportPositions params))"
    by (auto intro!: avoid supports_collected)
  have M: "evalM (getPolynomial b c params R) b - evalM (getPolynomial a b params R) b
        = - appliedMomentsAt b ?loads"
  proof -
    have "evalM (getPolynomial b c params R) b - evalM (getPolynomial a b params R) b
        = (evalM (polyReactions b params R) b - evalM (polyReactions a params R) b)
          + ((\<Sum>l\<leftarrow>?loads. evalM (polyLoad b c l zeroPoly) b)
             - (\<Sum>l\<leftarrow>?loads. evalM (polyLoad a b l zeroPoly) b))"
      by (simp add: getPolynomial_def evalM_fold_polyLoad)
    also have "\<dots> = (\<Sum>l\<leftarrow>?loads. evalM (polyLoad b c l zeroPoly) b
                                 - evalM (polyLoad a b l zeroPoly) b)"
      by (simp add: jump_reactions(2) [OF ab bc sup] sum_list_diff)
    also have "\<dots> = (\<Sum>l\<leftarrow>?loads. if l_type l = load_M \<and> l_x l = Some b then - l_val l else 0)"
      by (intro arg_cong [where f = sum_list] map_cong refl
            jump_load(2) [OF ab bc load_avoid load_ord])
    finally show ?thesis by (simp add: sum_appliedMomentsAt)
  qed
  have V: "evalV (getPolynomial b c params R) b - evalV (getPolynomial a b params R) b
        = supportReactionsAt b params R - pointLoadsAt b ?loads"
  proof -
    have "evalV (getPolynomial b c params R) b - evalV (getPolynomial a b params R) b
        = (evalV (polyReactions b params R) b - evalV (polyReactions a params R) b)
          + ((\<Sum>l\<leftarrow>?loads. evalV (polyLoad b c l zeroPoly) b)
             - (\<Sum>l\<leftarrow>?loads. evalV (polyLoad a b l zeroPoly) b))"
      by (simp add: getPolynomial_def evalV_fold_polyLoad)
    also have "\<dots> = supportReactionsAt b params R
          + (\<Sum>l\<leftarrow>?loads. evalV (polyLoad b c l zeroPoly) b
                         - evalV (polyLoad a b l zeroPoly) b)"
      by (simp add: jump_reactions(1) [OF ab bc sup] sum_list_diff)
    also have "(\<Sum>l\<leftarrow>?loads. evalV (polyLoad b c l zeroPoly) b
                         - evalV (polyLoad a b l zeroPoly) b)
        = (\<Sum>l\<leftarrow>?loads. if l_type l = load_P \<and> l_x l = Some b then - l_val l else 0)"
      by (intro arg_cong [where f = sum_list] map_cong refl
            jump_load(1) [OF ab bc load_avoid load_ord])
    finally show ?thesis by (simp add: sum_pointLoadsAt)
  qed
  show ?thesis using M V by (simp add: sp xb)
qed

lemma overhangingDefault_sel:
  "beam_length overhangingDefault = 8" "beamType overhangingDefault = overhanging"
  "supportA overhangingDefault = 1" "supportB overhangingDefault = 7"
  "customLoads overhangingDefault = []" "force overhangingDefault = - 50000"
  "loadPosition overhangingDefault = 4"
  by (simp_all add: overhangingDefault_def defaultParams_sel)

lemma mixedLoads_sel:
  "beam_length mixedLoads = 8" "beamType mixedLoads = simplySupported"
  "customLoads mixedLoads = [pointLoadAt 1000 2, appliedMomentAt 500 4, uniformLoadOn 200 4 6]"
  by (simp_all add: mixedLoads_def defaultParams_sel)

lemma resolveLoads_overhangingDefault:
  "resolveLoads overhangingDefault = [pointLoadAt 50000 4\<lparr>l_id := ''default''\<rparr>]"
  by (simp add: resolveLoads_def defaultLoad_def pointLoadAt_def overhangingDefault_sel)

lemma resolveLoads_mixedLoads:
  "resolveLoads mixedLoads = [pointLoadAt 1000 2, appliedMomentAt 500 4, uniformLoadOn 200 4 6]"
  by (simp add: resolveLoads_def mixedLoads_sel)

lemma steps_overhangingDefault:
  "generateDetailedSteps overhangingDefault R =
     [\<lparr> s_xA = 0, s_xB = 1, s_poly = getPolynomial 0 1 overhangingDefault R \<rparr>,
      \<lparr> s_xA = 1, s_xB = 4, s_poly = getPolynomial 1 4 overhangingDefault R \<rparr>,
      \<lparr> s_xA = 4, s_xB = 7, s_poly = getPolynomial 4 7 overhangingDefault R \<rparr>,
      \<lparr> s_xA = 7, s_xB = 8, s_poly = getPolynomial 7 8 overhangingDefault R \<rparr>]"
proof -
  have "collectedPoints overhangingDefault = [0, 8, 1, 7, 4]"
    by (simp add: collectedPoints_def resolveLoads_overhangingDefault loadPoints_def
          pointLoadAt_def overhangingDefault_sel)
  then have "breakPoints overhangingDefault = [0, 1, 4, 7, 8]"
    by (simp add: breakPoints_def)
  then show ?thesis
    by (simp add: generateDetailedSteps_def stepsFrom_Cons stepsFrom_single)
qed

lemma steps_mixedLoads:
  "generateDetailedSteps mixedLoads R =
     [\<lparr> s_xA = 0, s_xB = 2, s_poly = getPolynomial 0 2 mixedLoads R \<rparr>,
      \<lparr> s_xA = 2, s_xB = 4, s_poly = getPolynomial 2 4 mixedLoads R \<rparr>,
      \<lparr> s_xA = 4, s_xB = 6, s_poly = getPolynomial 4 6 mixedLoads R \<rparr>,
      \<lparr> s_xA = 6, s_xB = 8, s_poly = getPolynomial 6 8 mixedLoads R \<rparr>]"
proof -
  have "collectedPoints mixedLoads = [0, 8, 2, 4, 4, 6]"
    by (simp add: collectedPoints_def resolveLoads_mixedLoads loadPoints_def
          pointLoadAt_def appliedMomentAt_def uniformLoadOn_def mixedLoads_sel)
  then have "breakPoints mixedLoads = [0, 2, 4, 6, 8]"
    by (simp add: breakPoints_def)
  then show ?thesis
    by (simp add: generateDetailedSteps_def stepsFrom_Cons stepsFrom_single)
qed

lemma reactions_overhangingDefault:
  "solveReactions overhangingDefault = \<lparr> r_Ra = 25000, r_Rb = 25000, r_Ma = 0 \<rparr>"
  by (simp add: solveReactions_def loadSums_def resolveLoads_overhangingDefault
        accumulateLoad_def pointLoadAt_def supportPositions_def effectiveSpan_def Let_def
        overhangingDefault_sel)

text \<open>
  As stated the claim fails at a support: on the default beam with overhangs
  (supports at 1 and 7, load at 4) the segments \<open>[0, 1]\<close> and \<open>[1, 4]\<close> meet at the
  support \<open>x = 1\<close>, where no point load acts, and their \<open>V\<close> polynomials evaluate to
  0 and to \<open>Ra = 25000\<close> there.
\<close>

theorem polynomial_jumps_counterexample:
  "stepInterval (generateDetailedSteps overhangingDefault (solveReactions overhangingDefault) ! 0)
     = (0, 1)
   \<and> stepInterval (generateDetailedSteps overhangingDefault (solveReactions overhangingDefault) ! 1)
     = (1, 4)
   \<and> pointLoadsAt 1 (resolveLoads overhangingDefault) = 0
   \<and> evalV (s_poly (generateDetailedSteps overhangingDefault
                       (solveReactions overhangingDefault) ! 0)) 1 = 0
   \<and> evalV (s_poly (generateDetailedSteps overhangingDefault
                       (solveReactions overhangingDefault) ! 1)) 1 = 25000"
proof -
  have "evalV (getPolynomial 0 1 overhangingDefault (solveReactions overhangingDefault)) 1 = 0"
    by (simp add: getPolynomial_def resolveLoads_overhangingDefault polyReactions_def
          polyLoad_def pointLoadAt_def Let_def overhangingDefault_sel eval_zeroPoly)
  moreover
  have "evalV (getPolynomial 1 4 overhangingDefault (solveReactions overhangingDefault)) 1
          = 25000"
    by (simp add: getPolynomial_def resolveLoads_overhangingDefault polyReactions_def
          polyLoad_def pointLoadAt_def Let_def overhangingDefault_sel eval_zeroPoly
          eval_addForce reactions_overhangingDefault)
  moreover have "pointLoadsAt 1 (resolveLoads overhangingDefault) = 0"
    by (simp add: pointLoadsAt_def resolveLoads_overhangingDefault pointLoadAt_def)
  ultimately show ?thesis
    by (simp add: steps_overhangingDefault stepInterval_def)
qed

text \<open>
  A point load of 1000 at 2, an applied moment of 500 at 4 and a uniform load on
  \<open>[4, 6]\<close>: at \<open>x = 4\<close> the moment polynomial drops by 500 and the shear is
  continuous; at \<open>x = 2\<close> the shear drops by 1000.
\<close>

theorem polynomial_jumps_at_boundary_witness:
  "rangeLoadsOrdered mixedLoads
   \<and> stepInterval (generateDetailedSteps mixedLoads (solveReactions mixedLoads) ! 1) = (2, 4)
   \<and> stepInterval (generateDetailedSteps mixedLoads (solveReactions mixedLoads) ! 2) = (4, 6)
   \<and> evalM (s_poly (generateDetailedSteps mixedLoads (solveReactions mixedLoads) ! 2)) 4
       - evalM (s_poly (generateDetailedSteps mixedLoads (solveReactions mixedLoads) ! 1)) 4
       = - 500
   \<and> evalV (s_poly (generateDetailedSteps mixedLoads (solveReactions mixedLoads) ! 2)) 4
       - evalV (s_poly (generateDetailedSteps mixedLoads (solveReactions mixedLoads) ! 1)) 4
       = 0
   \<and> evalV (s_poly (generateDetailedSteps mixedLoads (solveReactions mixedLoads) ! 1)) 2
       - evalV (s_poly (generateDetailedSteps mixedLoads (solveReactions mixedLoads) ! 0)) 2
       = - 1000"
proof -
  let ?R = "solveReactions mixedLoads"
  let ?G = "generateDetailedSteps mixedLoads ?R"
  have ord: "rangeLoadsOrdered mixedLoads"
    by (simp add: rangeLoadsOrdered_def resolveLoads_mixedLoads pointLoadAt_def
          appliedMomentAt_def uniformLoadOn_def)
  define s0 where "s0 = \<lparr> s_xA = 0, s_xB = 2, s_poly = getPolynomial 0 2 mixedLoads ?R \<rparr>"
  define s1 where "s1 = \<lparr> s_xA = 2, s_xB = 4, s_poly = getPolynomial 2 4 mixedLoads ?R \<rparr>"
  define s2 where "s2 = \<lparr> s_xA = 4, s_xB = 6, s_poly = getPolynomial 4 6 mixedLoads ?R \<rparr>"
  have G: "?G ! 0 = s0" "?G ! 1 = s1" "?G ! 2 = s2"
    by (simp_all add: steps_mixedLoads s0_def s1_def s2_def)
  have mem: "s0 \<in> set ?G" "s1 \<in> set ?G" "s2 \<in> set ?G"
    by (simp_all add: steps_mixedLoads s0_def s1_def s2_def)
  have x: "s_xA s2 = 4" "s_xB s1 = 4" "s_xA s1 = 2" "s_xB s0 = 2"
    "stepInterval s1 = (2, 4)" "stepInterval s2 = (4, 6)"
    by (simp_all add: s0_def s1_def s2_def stepInterval_def)
  have adj: "s_xB s1 = s_xA s2" "s_xB s0 = s_xA s1"
    by (simp_all add: x)
  have at: "appliedMomentsAt 4 (resolveLoads mixedLoads) = 500"
      "pointLoadsAt 4 (resolveLoads mixedLoads) = 0"
      "pointLoadsAt 2 (resolveLoads mixedLoads) = 1000"
      "supportReactionsAt 4 mixedLoads ?R = 0" "supportReactionsAt 2 mixedLoads ?R = 0"
    by (simp_all add: appliedMomentsAt_def pointLoadsAt_def supportReactionsAt_def
          resolveLoads_mixedLoads pointLoadAt_def appliedMomentAt_def uniformLoadOn_def
          supportPositions_def mixedLoads_sel)
  show ?thesis
    using ord polynomial_jumps_at_boundary [OF ord mem(2) mem(3) adj(1)]
      polynomial_jumps_at_boundary [OF ord mem(1) mem(2) adj(2)]
    unfolding G by (simp add: at x)
qed


section \<open>The numeric sweep against the piecewise polynomials\<close>

subsection \<open>The sweep as running sums\<close>
















subsection \<open>A single force in the sweep\<close>











subsection \<open>The reactions in the sweep and in the polynomials\<close>

lemma station_nonneg: "0 < dx \<Longrightarrow> 0 \<le> real k * dx"
  by simp




subsection \<open>A point load or an applied moment in the sweep and in the polynomials\<close>






subsection \<open>Stations inside a segment\<close>





subsection \<open>A distributed load in the sweep\<close>








subsection \<open>Uniform and triangular loads\<close>



















subsection \<open>The error of one load and of the whole sweep\<close>






subsection \<open>The diagrams of calculateAnalyticalDiagrams\<close>












end
